theory Spec2Isabelle
  imports Main
begin

section \<open>Values, function values and callback code\<close>

text \<open>
  The runtime in \<^verbatim>\<open>src/core/core.js\<close> is higher order: signals, effects and the element
  builder all call JavaScript function values handed in by the application. A JavaScript
  value is a \<open>val\<close>; a function value is either one of the closures the runtime itself
  creates (a signal's read and write accessor, the \<^verbatim>\<open>runEffect\<close> closure of an effect, the
  arrow functions inside \<^verbatim>\<open>setMemo\<close> and \<^verbatim>\<open>appendChild\<close>), one of the exported functions,
  or an application callback \<open>Lam body\<close> whose body is an expression of a small callback
  language.

  Numbers are integers here (no fractions, no NaN). Objects live in a heap and are
  addressed by an identifier, DOM nodes likewise.
\<close>

type_synonym sid = nat
type_synonym eid = nat
type_synonym nid = nat
type_synonym oid = nat

datatype exported = PsetSignal | PsetEffect | PsetMemo | Phtml | Prender

datatype val =
    VUndefined
  | VNull
  | VBool bool
  | VNum int
  | VStr string
  | VSymbol string
  | VArr "val list"
  | VNode nid
  | VObj oid
  | VError string
  | VFun fn
and fn =
    Getter sid
  | Setter sid
  | RunEffect eid val
  | MemoBody sid val
  | ChildEffect nid nid val
  | PromiseResolved nid nid
  | PromiseRejected nid
  | Exported exported
  | Lam expr
and expr =
    Const val
  | Arg nat
  | Seq expr expr
  | If expr expr expr
  | Throw expr
  | Call expr "expr list"
  | Succ expr
  | GetVar nat
  | SetVar nat expr
  | ArrayLit "expr list"

text \<open>
  \<open>Fragment\<close> is \<^verbatim>\<open>Symbol("Fragment")\<close> (line 1 of core.js).
\<close>

definition Fragment :: val where
  "Fragment = VSymbol ''Fragment''"

text \<open>
  What the runtime does is recorded as a forest of events: every call of a function value
  (with its arguments, its outcome and the events that happened inside the call) and every
  \<^verbatim>\<open>console.error\<close> report. The forest is bookkeeping of the model: no function of the
  runtime reads it. An outcome is \<open>Inl e\<close> when the call threw \<open>e\<close> and \<open>Inr v\<close> when it
  returned \<open>v\<close>.
\<close>

type_synonym outcome = "val + val"

datatype event =
    Called val "val list" outcome "event list"
  | Logged string "val option"

fun callee :: "event \<Rightarrow> val option" where
  "callee (Called f args r evs) = Some f"
| "callee (Logged label e) = None"

fun is_call :: "event \<Rightarrow> bool" where
  "is_call (Called f args r evs) = True"
| "is_call (Logged label e) = False"

section \<open>The state of the runtime\<close>

text \<open>
  A signal is the pair of closure variables of one \<^verbatim>\<open>setSignal\<close> call: \<^verbatim>\<open>initialValue\<close>
  (which the write accessor reassigns) and the \<^verbatim>\<open>subscribers\<close> set. A JavaScript \<^verbatim>\<open>Set\<close>
  iterates in insertion order, so the set is a list without repetitions.
\<close>

record signal =
  initialValue :: val
  subscribers :: "val list"

text \<open>
  The DOM is the host's: a store of nodes addressed by identifier. A node has a kind, a
  parent, an ordered list of children, character data (text and comment nodes) and, for an
  element, its name, namespace, attributes, the \<^verbatim>\<open>value\<close> property, inline style
  properties, the markup assigned to \<^verbatim>\<open>innerHTML\<close> and its event listeners. An attribute
  is a triple of namespace (empty for none), name and value.
\<close>

datatype node_kind = ElementNode | TextNode | CommentNode | FragmentNode

record node =
  kind :: node_kind
  parentNode :: "nid option"
  childNodes :: "nid list"
  nodeData :: string
  localName :: string
  namespaceURI :: string
  attributes :: "(string \<times> string \<times> string) list"
  valueProp :: "val option"
  styleProps :: "(string \<times> val) list"
  innerHTML :: "string option"
  listeners :: "(string \<times> val) list"

text \<open>
  The state: the module variable \<^verbatim>\<open>currentEffect\<close>, the signals and the counters that
  give each new signal and each new \<^verbatim>\<open>runEffect\<close> closure its identity, the variables of
  the application's callbacks, the node store, the object heap, the two things the model
  asks of the host document (which names \<^verbatim>\<open>createElement\<close> and \<^verbatim>\<open>setAttribute\<close> accept,
  and what \<^verbatim>\<open>document.querySelector\<close> answers), and the recorded events.
\<close>

record state =
  currentEffect :: val
  signals :: "sid \<Rightarrow> signal"
  nextSignal :: sid
  nextEffect :: eid
  vars :: "nat \<Rightarrow> val"
  nodes :: "nid \<Rightarrow> node"
  nextNode :: nid
  objects :: "oid \<Rightarrow> (string \<times> val) list"
  validName :: "string \<Rightarrow> bool"
  querySelector :: "string \<Rightarrow> outcome"
  trace :: "event list"

definition blank_node :: node where
  "blank_node = \<lparr> kind = TextNode, parentNode = None, childNodes = [], nodeData = [],
                   localName = [], namespaceURI = [], attributes = [], valueProp = None,
                   styleProps = [], innerHTML = None, listeners = [] \<rparr>"

definition init_state :: state where
  "init_state = \<lparr> currentEffect = VUndefined,
                  signals = (\<lambda>_. \<lparr> initialValue = VUndefined, subscribers = [] \<rparr>),
                  nextSignal = 0, nextEffect = 0,
                  vars = (\<lambda>_. VUndefined),
                  nodes = (\<lambda>_. blank_node), nextNode = 0,
                  objects = (\<lambda>_. []),
                  validName = (\<lambda>_. True),
                  querySelector = (\<lambda>_. Inr VNull),
                  trace = [] \<rparr>"

text \<open>
  A computation either runs out of call depth (\<open>None\<close>: the JavaScript recursion does not
  end) or ends in a state with an outcome.
\<close>

type_synonym 's result = "(outcome \<times> 's) option"
type_synonym 's caller = "val \<Rightarrow> val list \<Rightarrow> 's \<Rightarrow> 's result"

definition returns :: "val \<Rightarrow> 's \<Rightarrow> 's result" where
  "returns v s = Some (Inr v, s)"

definition throws :: "val \<Rightarrow> 's \<Rightarrow> 's result" where
  "throws e s = Some (Inl e, s)"

definition thenDo :: "'s result \<Rightarrow> (val \<Rightarrow> 's \<Rightarrow> 's result) \<Rightarrow> 's result" where
  "thenDo m k = (case m of None \<Rightarrow> None
                 | Some (Inl e, s) \<Rightarrow> Some (Inl e, s)
                 | Some (Inr v, s) \<Rightarrow> k v s)"

definition tryCatch :: "'s result \<Rightarrow> (val \<Rightarrow> 's \<Rightarrow> 's result) \<Rightarrow> 's result" where
  "tryCatch m h = (case m of None \<Rightarrow> None
                   | Some (Inl e, s) \<Rightarrow> h e s
                   | Some (Inr v, s) \<Rightarrow> Some (Inr v, s))"

primrec forEach :: "('a \<Rightarrow> 's \<Rightarrow> 's result) \<Rightarrow> 'a list \<Rightarrow> 's \<Rightarrow> 's result" where
  "forEach f [] = returns VUndefined"
| "forEach f (x # xs) = (\<lambda>s. thenDo (f x s) (\<lambda>_. forEach f xs))"

section \<open>JavaScript tests on values\<close>

text \<open>
  \<^verbatim>\<open>typeof v === "function"\<close>, and the truthiness test of \<^verbatim>\<open>if (v)\<close> and \<^verbatim>\<open>!v\<close>: the falsy
  values are \<^verbatim>\<open>undefined\<close>, \<^verbatim>\<open>null\<close>, \<^verbatim>\<open>false\<close>, \<^verbatim>\<open>0\<close> and the empty string.
\<close>

fun is_function :: "val \<Rightarrow> bool" where
  "is_function (VFun f) = True"
| "is_function v = False"

fun truthy :: "val \<Rightarrow> bool" where
  "truthy VUndefined = False"
| "truthy VNull = False"
| "truthy (VBool b) = b"
| "truthy (VNum n) = (n \<noteq> 0)"
| "truthy (VStr s) = (s \<noteq> [])"
| "truthy v = True"

fun nullish :: "val \<Rightarrow> bool" where
  "nullish VUndefined = True"
| "nullish VNull = True"
| "nullish v = False"

text \<open>The primitive values: everything but arrays, nodes, objects, errors and functions.\<close>

fun primitive :: "val \<Rightarrow> bool" where
  "primitive VUndefined = True"
| "primitive VNull = True"
| "primitive (VBool b) = True"
| "primitive (VNum n) = True"
| "primitive (VStr s) = True"
| "primitive (VSymbol d) = True"
| "primitive v = False"

text \<open>Error objects: \<^verbatim>\<open>Error\<close>, \<^verbatim>\<open>TypeError\<close>, \<^verbatim>\<open>DOMException\<close>.\<close>

fun is_error :: "val \<Rightarrow> bool" where
  "is_error (VError m) = True"
| "is_error v = False"

section \<open>Strings, properties and arrays of JavaScript values\<close>

text \<open>
  \<^verbatim>\<open>String(v)\<close> and the implicit conversion of a template literal or of a DOM string
  argument. Both throw a \<^verbatim>\<open>TypeError\<close> on an array that holds a symbol; the implicit
  conversion also throws on a symbol itself. The text of a function, of an object and of a
  node is a fixed word here (JavaScript prints the source text of a function and the class
  of a node), and objects have no \<^verbatim>\<open>toString\<close> of their own.
\<close>

fun show_nat :: "nat \<Rightarrow> string" where
  "show_nat n =
     (if n < 10 then [char_of (48 + n)] else show_nat (n div 10) @ [char_of (48 + n mod 10)])"

declare show_nat.simps [simp del]

definition show_int :: "int \<Rightarrow> string" where
  "show_int i = (if i < 0 then CHR ''-'' # show_nat (nat (- i)) else show_nat (nat i))"

fun join_with :: "string \<Rightarrow> string list \<Rightarrow> string" where
  "join_with sep [] = []"
| "join_with sep [x] = x"
| "join_with sep (x # y # ys) = x @ sep @ join_with sep (y # ys)"

fun text_of :: "val \<Rightarrow> string" where
  "text_of VUndefined = ''undefined''"
| "text_of VNull = ''null''"
| "text_of (VBool b) = (if b then ''true'' else ''false'')"
| "text_of (VNum i) = show_int i"
| "text_of (VStr s) = s"
| "text_of (VSymbol d) = ''Symbol('' @ d @ '')''"
| "text_of (VArr xs) = join_with '','' (map (\<lambda>x. if nullish x then [] else text_of x) xs)"
| "text_of (VNode n) = ''[object Node]''"
| "text_of (VObj k) = ''[object Object]''"
| "text_of (VError m) = ''Error: '' @ m"
| "text_of (VFun f) = ''[function]''"

fun holds_symbol :: "val \<Rightarrow> bool" where
  "holds_symbol (VSymbol d) = True"
| "holds_symbol (VArr xs) = (\<exists>x \<in> set xs. holds_symbol x)"
| "holds_symbol v = False"

definition TypeError :: "string \<Rightarrow> val" where
  "TypeError m = VError (''TypeError: '' @ m)"

definition String_of :: "val \<Rightarrow> val + string" where
  "String_of v =
     (case v of
        VSymbol d \<Rightarrow> Inr (text_of v)
      | _ \<Rightarrow> if holds_symbol v then Inl (TypeError ''Cannot convert a Symbol value to a string'')
             else Inr (text_of v))"

definition ToString :: "val \<Rightarrow> val + string" where
  "ToString v =
     (if holds_symbol v then Inl (TypeError ''Cannot convert a Symbol value to a string'')
      else Inr (text_of v))"

definition withText :: "val + string \<Rightarrow> (string \<Rightarrow> 's \<Rightarrow> 's result) \<Rightarrow> 's \<Rightarrow> 's result" where
  "withText c k s = (case c of Inl e \<Rightarrow> throws e s | Inr txt \<Rightarrow> k txt s)"

text \<open>
  Property access \<^verbatim>\<open>v.name\<close>, the test \<^verbatim>\<open>name in v\<close>, the assignment \<^verbatim>\<open>v.name = x\<close> and
  \<^verbatim>\<open>Object.entries(v)\<close>, for the property names the runtime uses (\<^verbatim>\<open>message\<close>,
  \<^verbatim>\<open>__html\<close>, \<^verbatim>\<open>current\<close>, \<^verbatim>\<open>then\<close>, \<^verbatim>\<open>catch\<close>): a heap object has the properties the heap
  lists, an error object has its \<^verbatim>\<open>message\<close>, and no other value has any of them.
\<close>

fun is_object :: "val \<Rightarrow> bool" where
  "is_object (VArr xs) = True"
| "is_object (VNode n) = True"
| "is_object (VObj k) = True"
| "is_object (VError m) = True"
| "is_object v = False"

definition prop_of :: "state \<Rightarrow> val \<Rightarrow> string \<Rightarrow> val" where
  "prop_of s v name =
     (case v of
        VObj k \<Rightarrow> (case map_of (objects s k) name of Some x \<Rightarrow> x | None \<Rightarrow> VUndefined)
      | VError m \<Rightarrow> (if name = ''message'' then VStr m else VUndefined)
      | _ \<Rightarrow> VUndefined)"

definition get_prop :: "val \<Rightarrow> string \<Rightarrow> state \<Rightarrow> state result" where
  "get_prop v name s =
     (if nullish v
      then throws (TypeError (''Cannot read properties of '' @ text_of v)) s
      else returns (prop_of s v name) s)"

definition has_prop :: "string \<Rightarrow> val \<Rightarrow> state \<Rightarrow> state result" where
  "has_prop name v s =
     (if is_object v \<or> is_function v
      then (case v of
              VObj k \<Rightarrow> returns (VBool (name \<in> fst ` set (objects s k))) s
            | _ \<Rightarrow> returns (VBool False) s)
      else throws (TypeError ''Cannot use the in operator on a primitive'') s)"

definition set_prop :: "oid \<Rightarrow> string \<Rightarrow> val \<Rightarrow> state \<Rightarrow> state" where
  "set_prop k name x s =
     (let ps = objects s k;
          ps' = (if name \<in> fst ` set ps
                 then map (\<lambda>(n, y). if n = name then (n, x) else (n, y)) ps
                 else ps @ [(name, x)])
      in s\<lparr>objects := (objects s)(k := ps')\<rparr>)"

definition entries :: "state \<Rightarrow> val \<Rightarrow> (string \<times> val) list" where
  "entries s v =
     (case v of
        VObj k \<Rightarrow> objects s k
      | VArr xs \<Rightarrow> map (\<lambda>i. (show_nat i, xs ! i)) [0..<length xs]
      | VStr cs \<Rightarrow> map (\<lambda>i. (show_nat i, VStr [cs ! i])) [0..<length cs]
      | _ \<Rightarrow> [])"

text \<open>\<^verbatim>\<open>xs.flat(Infinity)\<close>: nested arrays are spliced in, to any depth.\<close>

fun flat :: "val list \<Rightarrow> val list" where
  "flat [] = []"
| "flat (VArr ys # xs) = flat ys @ flat xs"
| "flat (x # xs) = x # flat xs"

fun split_on :: "char \<Rightarrow> string \<Rightarrow> string list" where
  "split_on c [] = [[]]"
| "split_on c (x # xs) =
     (if x = c then [] # split_on c xs
      else (case split_on c xs of [] \<Rightarrow> [[x]] | w # ws \<Rightarrow> (x # w) # ws))"

section \<open>The host's DOM operations\<close>

text \<open>
  The DOM operations the runtime uses, after the DOM standard: creating nodes, inserting
  (with the standard's checks: the parent must be able to have children, a node cannot be
  inserted into its own subtree, the reference child must be a child of the parent),
  removing, and assigning \<^verbatim>\<open>textContent\<close>. A failed check throws a \<^verbatim>\<open>DOMException\<close>, an
  error object whose message is here the name of the exception.
\<close>

definition createNode :: "node \<Rightarrow> state \<Rightarrow> state result" where
  "createNode n s =
     returns (VNode (nextNode s))
       (s\<lparr>nodes := (nodes s)(nextNode s := n), nextNode := Suc (nextNode s)\<rparr>)"

definition createTextNode :: "string \<Rightarrow> state \<Rightarrow> state result" where
  "createTextNode txt = createNode (blank_node\<lparr>kind := TextNode, nodeData := txt\<rparr>)"

definition createComment :: "string \<Rightarrow> state \<Rightarrow> state result" where
  "createComment txt = createNode (blank_node\<lparr>kind := CommentNode, nodeData := txt\<rparr>)"

definition createDocumentFragment :: "state \<Rightarrow> state result" where
  "createDocumentFragment = createNode (blank_node\<lparr>kind := FragmentNode\<rparr>)"

definition HTML_NS :: string where
  "HTML_NS = ''http://www.w3.org/1999/xhtml''"

definition SVG_NS :: string where
  "SVG_NS = ''http://www.w3.org/2000/svg''"

definition createElementNS :: "string \<Rightarrow> string \<Rightarrow> state \<Rightarrow> state result" where
  "createElementNS ns name s =
     (if validName s name
      then createNode (blank_node\<lparr>kind := ElementNode, localName := name, namespaceURI := ns\<rparr>) s
      else throws (VError ''InvalidCharacterError'') s)"

definition lower_char :: "char \<Rightarrow> char" where
  "lower_char c =
     (let k = (of_char c :: nat) in if 65 \<le> k \<and> k \<le> 90 then char_of (k + 32) else c)"

definition toLowerCase :: "string \<Rightarrow> string" where
  "toLowerCase = map lower_char"

definition createElement :: "string \<Rightarrow> state \<Rightarrow> state result" where
  "createElement name s =
     (if validName s name then createElementNS HTML_NS (toLowerCase name) s
      else throws (VError ''InvalidCharacterError'') s)"

fun ancestor_within :: "nat \<Rightarrow> (nid \<Rightarrow> node) \<Rightarrow> nid \<Rightarrow> nid \<Rightarrow> bool" where
  "ancestor_within 0 ns a n = (a = n)"
| "ancestor_within (Suc d) ns a n =
     (a = n \<or> (case parentNode (ns n) of None \<Rightarrow> False | Some p \<Rightarrow> ancestor_within d ns a p))"

definition inclusive_ancestor :: "state \<Rightarrow> nid \<Rightarrow> nid \<Rightarrow> bool" where
  "inclusive_ancestor s a n = ancestor_within (nextNode s) (nodes s) a n"

definition nextSibling :: "state \<Rightarrow> nid \<Rightarrow> nid option" where
  "nextSibling s n =
     (case parentNode (nodes s n) of
        None \<Rightarrow> None
      | Some p \<Rightarrow> (case dropWhile (\<lambda>c. c \<noteq> n) (childNodes (nodes s p)) of
                    c # c' # cs \<Rightarrow> Some c'
                  | _ \<Rightarrow> None))"

definition detach :: "nid \<Rightarrow> state \<Rightarrow> state" where
  "detach n s =
     (case parentNode (nodes s n) of
        None \<Rightarrow> s
      | Some p \<Rightarrow>
          (let ns1 = (nodes s)(n := (nodes s n)\<lparr>parentNode := None\<rparr>);
               ns2 = ns1(p := (ns1 p)\<lparr>childNodes := removeAll n (childNodes (ns1 p))\<rparr>)
           in s\<lparr>nodes := ns2\<rparr>))"

definition set_parent :: "nid \<Rightarrow> nid \<Rightarrow> state \<Rightarrow> state" where
  "set_parent p n s = s\<lparr>nodes := (nodes s)(n := (nodes s n)\<lparr>parentNode := Some p\<rparr>)\<rparr>"

definition insert_nodes :: "nid \<Rightarrow> nid list \<Rightarrow> nid option \<Rightarrow> state \<Rightarrow> state" where
  "insert_nodes p new refChild s =
     (let s1 = fold (set_parent p) new s;
          cs = childNodes (nodes s1 p);
          cs' = (case refChild of
                   None \<Rightarrow> cs @ new
                 | Some c \<Rightarrow> takeWhile (\<lambda>x. x \<noteq> c) cs @ new @ dropWhile (\<lambda>x. x \<noteq> c) cs)
      in s1\<lparr>nodes := (nodes s1)(p := (nodes s1 p)\<lparr>childNodes := cs'\<rparr>)\<rparr>)"

definition can_have_children :: "state \<Rightarrow> nid \<Rightarrow> bool" where
  "can_have_children s p = (kind (nodes s p) = ElementNode \<or> kind (nodes s p) = FragmentNode)"

definition insertBefore :: "nid \<Rightarrow> nid \<Rightarrow> nid option \<Rightarrow> state \<Rightarrow> state result" where
  "insertBefore p n refChild s =
     (if \<not> can_have_children s p \<or> inclusive_ancestor s n p
      then throws (VError ''HierarchyRequestError'') s
      else if (case refChild of None \<Rightarrow> False | Some c \<Rightarrow> c \<notin> set (childNodes (nodes s p)))
      then throws (VError ''NotFoundError'') s
      else
        (let refChild' = (if refChild = Some n then nextSibling s n else refChild) in
         if kind (nodes s n) = FragmentNode
         then (let new = childNodes (nodes s n);
                   s1 = s\<lparr>nodes := (nodes s)(n := (nodes s n)\<lparr>childNodes := []\<rparr>)\<rparr>
               in returns (VNode n) (insert_nodes p new refChild' s1))
         else returns (VNode n) (insert_nodes p [n] refChild' (detach n s))))"

definition dom_appendChild :: "nid \<Rightarrow> nid \<Rightarrow> state \<Rightarrow> state result" where
  "dom_appendChild p n = insertBefore p n None"

definition removeChild :: "nid \<Rightarrow> nid \<Rightarrow> state \<Rightarrow> state result" where
  "removeChild p c s =
     (if c \<in> set (childNodes (nodes s p))
      then returns (VNode c)
             (let ns1 = (nodes s)(c := (nodes s c)\<lparr>parentNode := None\<rparr>)
              in s\<lparr>nodes := ns1(p := (ns1 p)\<lparr>childNodes := removeAll c (childNodes (ns1 p))\<rparr>)\<rparr>)
      else throws (VError ''NotFoundError'') s)"

definition replaceChild :: "nid \<Rightarrow> nid \<Rightarrow> nid \<Rightarrow> state \<Rightarrow> state result" where
  "replaceChild p n c s =
     (if \<not> can_have_children s p \<or> inclusive_ancestor s n p
      then throws (VError ''HierarchyRequestError'') s
      else if c \<notin> set (childNodes (nodes s p))
      then throws (VError ''NotFoundError'') s
      else
        (let r = nextSibling s c;
             refChild = (if r = Some n then nextSibling s n else r)
         in thenDo (removeChild p c s) (\<lambda>_ s1.
            thenDo (insertBefore p n refChild s1) (\<lambda>_. returns (VNode c)))))"

text \<open>
  Assigning \<^verbatim>\<open>textContent\<close>: on a text or comment node it replaces the data; on an element
  or fragment it removes every child and, for a non-empty string, leaves one new text node.
\<close>

definition set_textContent :: "nid \<Rightarrow> string \<Rightarrow> state \<Rightarrow> state result" where
  "set_textContent n txt s =
     (if can_have_children s n
      then (let s1 = fold detach (childNodes (nodes s n)) s;
                s2 = s1\<lparr>nodes := (nodes s1)(n := (nodes s1 n)\<lparr>childNodes := []\<rparr>)\<rparr>
            in if txt = [] then returns VUndefined s2
               else thenDo (createTextNode txt s2) (\<lambda>t s3.
                      case t of VNode k \<Rightarrow> thenDo (dom_appendChild n k s3) (\<lambda>_. returns VUndefined)
                              | _ \<Rightarrow> returns VUndefined s3))
      else returns VUndefined (s\<lparr>nodes := (nodes s)(n := (nodes s n)\<lparr>nodeData := txt\<rparr>)\<rparr>))"

section \<open>Recording calls and reports\<close>

text \<open>
  \<open>traced f args m\<close> runs the call \<open>m\<close> of the function value \<open>f\<close> and records it, with
  the events of the call nested inside; \<open>invoke call f args\<close> is a call of a function value
  that is only known at run time, which is left to the parameter \<open>call\<close>; calling a value
  that is not a function throws a \<^verbatim>\<open>TypeError\<close>.
  \<open>console_error\<close> is \<^verbatim>\<open>console.error(label, error)\<close>.
\<close>

definition traced ::
  "val \<Rightarrow> val list \<Rightarrow> (state \<Rightarrow> state result) \<Rightarrow>
   state \<Rightarrow> state result" where
  "traced f args m s =
     (case m (s\<lparr>trace := []\<rparr>) of
        None \<Rightarrow> None
      | Some (r, s') \<Rightarrow> Some (r, s'\<lparr>trace := trace s @ [Called f args r (trace s')]\<rparr>))"

definition invoke ::
  "state caller \<Rightarrow> val \<Rightarrow> val list \<Rightarrow>
   state \<Rightarrow> state result" where
  "invoke call f args s =
     (if is_function f then traced f args (call f args) s
      else throws (TypeError (text_of f @ '' is not a function'')) s)"

definition console_error ::
  "string \<Rightarrow> val option \<Rightarrow> state \<Rightarrow> state result" where
  "console_error label e s = returns VUndefined (s\<lparr>trace := trace s @ [Logged label e]\<rparr>)"

section \<open>The reactive core\<close>

subsection \<open>setSignal (core.js lines 4-34)\<close>

definition add_subscriber :: "sid \<Rightarrow> val \<Rightarrow> state \<Rightarrow> state" where
  "add_subscriber k f s =
     (let sg = signals s k in
      if f \<in> set (subscribers sg) then s
      else s\<lparr>signals := (signals s)(k := sg\<lparr>subscribers := subscribers sg @ [f]\<rparr>)\<rparr>)"

definition assign_initialValue :: "sid \<Rightarrow> val \<Rightarrow> state \<Rightarrow> state" where
  "assign_initialValue k v s =
     s\<lparr>signals := (signals s)(k := (signals s k)\<lparr>initialValue := v\<rparr>)\<rparr>"

text \<open>The read accessor, lines 7-15.\<close>

definition signal_read :: "sid \<Rightarrow> state \<Rightarrow> state result" where
  "signal_read k s =
     tryCatch
       (let s1 = (if truthy (currentEffect s) then add_subscriber k (currentEffect s) s else s)
        in returns (initialValue (signals s1 k)) s1)
       (\<lambda>error s'. thenDo (console_error ''Error in signal getter:'' (Some error) s')
                      (\<lambda>_. throws error))"

text \<open>
  The write accessor, lines 16-32. \<open>next_value\<close> is the right-hand side of the assignment
  on lines 18-19, \<open>notify_subscriber\<close> the function given to \<^verbatim>\<open>forEach\<close> on lines
  20-26. \<^verbatim>\<open>[...subscribers]\<close> copies the set before the loop, so
  the loop runs over the subscribers as they are after the assignment and before the first
  subscriber is called.
\<close>

definition notify_subscriber ::
  "state caller \<Rightarrow> val \<Rightarrow> state \<Rightarrow> state result" where
  "notify_subscriber call subscriberFunction s =
     tryCatch (invoke call subscriberFunction [] s)
       (\<lambda>error. console_error ''Error in signal subscriber:'' (Some error))"

definition next_value ::
  "state caller \<Rightarrow> sid \<Rightarrow> val \<Rightarrow> state \<Rightarrow> state result" where
  "next_value call k newValue s =
     (if is_function newValue
      then invoke call newValue [initialValue (signals s k)] s
      else returns newValue s)"

definition signal_write ::
  "state caller \<Rightarrow> sid \<Rightarrow> val \<Rightarrow> state \<Rightarrow> state result" where
  "signal_write call k newValue s =
     tryCatch
       (thenDo (next_value call k newValue s)
         (\<lambda>v s1. let s2 = assign_initialValue k v s1 in
            thenDo (forEach (notify_subscriber call) (subscribers (signals s2 k)) s2)
              (\<lambda>_ s3. returns (initialValue (signals s3 k)) s3)))
       (\<lambda>error s'. thenDo (console_error ''Error in signal setter:'' (Some error) s')
                      (\<lambda>_. throws error))"

definition setSignal :: "val \<Rightarrow> state \<Rightarrow> state result" where
  "setSignal initial s =
     (let k = nextSignal s in
      returns (VArr [VFun (Getter k), VFun (Setter k)])
        (s\<lparr>signals := (signals s)(k := \<lparr>initialValue = initial, subscribers = []\<rparr>),
           nextSignal := Suc k\<rparr>))"

subsection \<open>setEffect (core.js lines 36-54)\<close>

text \<open>
  \<open>runEffect call self effectFunction\<close> is the body of the closure \<^verbatim>\<open>runEffect\<close>; \<open>self\<close>
  is that closure, which the body stores in \<^verbatim>\<open>currentEffect\<close>.
\<close>

definition runEffect ::
  "state caller \<Rightarrow> val \<Rightarrow> val \<Rightarrow> state \<Rightarrow> state result" where
  "runEffect call self effectFunction s =
     tryCatch
       (thenDo (invoke call effectFunction [] (s\<lparr>currentEffect := self\<rparr>))
          (\<lambda>result s1. returns result (s1\<lparr>currentEffect := VNull\<rparr>)))
       (\<lambda>error s'. thenDo (console_error ''Error in effect:'' (Some error)
                             (s'\<lparr>currentEffect := VNull\<rparr>))
                      (\<lambda>_. throws error))"

definition setEffect ::
  "state caller \<Rightarrow> val \<Rightarrow> state \<Rightarrow> state result" where
  "setEffect call effectFunction s =
     (let self = VFun (RunEffect (nextEffect s) effectFunction) in
      thenDo
        (tryCatch
           (traced self [] (runEffect call self effectFunction)
              (s\<lparr>nextEffect := Suc (nextEffect s)\<rparr>))
           (\<lambda>error. console_error ''Error initializing effect:'' (Some error)))
        (\<lambda>_. returns VUndefined))"

subsection \<open>setMemo (core.js lines 56-72)\<close>

text \<open>
  \<open>memoBody call k memoFunction\<close> is the arrow function handed to \<^verbatim>\<open>setEffect\<close> on lines
  59-66; \<open>k\<close> is the signal whose write accessor is \<^verbatim>\<open>setMemoValue\<close>.
\<close>

definition memoBody ::
  "state caller \<Rightarrow> sid \<Rightarrow> val \<Rightarrow> state \<Rightarrow> state result" where
  "memoBody call k memoFunction s =
     tryCatch
       (thenDo (invoke call memoFunction [] s)
          (\<lambda>v s1. thenDo (traced (VFun (Setter k)) [v] (signal_write call k v) s1)
             (\<lambda>_. returns VUndefined)))
       (\<lambda>error s'. thenDo (console_error ''Error in memo function:'' (Some error) s')
                      (\<lambda>_. throws error))"

definition setMemo ::
  "state caller \<Rightarrow> val \<Rightarrow> state \<Rightarrow> state result" where
  "setMemo call memoFunction s =
     tryCatch
       (let k = nextSignal s in
        thenDo (setSignal VUndefined s)
          (\<lambda>_ s1. thenDo (setEffect call (VFun (MemoBody k memoFunction)) s1)
             (\<lambda>_. returns (VFun (Getter k)))))
       (\<lambda>error s'. thenDo (console_error ''Error creating memo:'' (Some error) s')
                      (\<lambda>_. returns (VFun (Lam (Const VUndefined)))))"

section \<open>The element builder: html (core.js lines 74-290)\<close>

subsection \<open>Attributes and properties of an element\<close>

definition update_node :: "nid \<Rightarrow> (node \<Rightarrow> node) \<Rightarrow> state \<Rightarrow> state" where
  "update_node n f s = s\<lparr>nodes := (nodes s)(n := f (nodes s n))\<rparr>"

definition put_attribute :: "string \<Rightarrow> string \<Rightarrow> string \<Rightarrow> node \<Rightarrow> node" where
  "put_attribute ns name txt n =
     n\<lparr>attributes := filter (\<lambda>(ns', name', _). \<not> (ns' = ns \<and> name' = name)) (attributes n)
                       @ [(ns, name, txt)]\<rparr>"

definition attribute_name :: "state \<Rightarrow> nid \<Rightarrow> string \<Rightarrow> string" where
  "attribute_name s el name =
     (if namespaceURI (nodes s el) = HTML_NS then toLowerCase name else name)"

definition setAttribute :: "nid \<Rightarrow> string \<Rightarrow> val \<Rightarrow> state \<Rightarrow> state result" where
  "setAttribute el name v =
     withText (ToString v) (\<lambda>txt s.
       if validName s name
       then returns VUndefined (update_node el (put_attribute [] (attribute_name s el name) txt) s)
       else throws (VError ''InvalidCharacterError'') s)"

definition setAttributeNS :: "nid \<Rightarrow> string \<Rightarrow> string \<Rightarrow> val \<Rightarrow> state \<Rightarrow> state result" where
  "setAttributeNS el ns name v =
     withText (ToString v) (\<lambda>txt s.
       if validName s name
       then returns VUndefined (update_node el (put_attribute ns name txt) s)
       else throws (VError ''InvalidCharacterError'') s)"

definition removeAttribute :: "nid \<Rightarrow> string \<Rightarrow> state \<Rightarrow> state result" where
  "removeAttribute el name s =
     returns VUndefined
       (update_node el (\<lambda>n. n\<lparr>attributes :=
          filter (\<lambda>(ns', name', _). \<not> (ns' = [] \<and> name' = attribute_name s el name))
            (attributes n)\<rparr>) s)"

definition set_style :: "nid \<Rightarrow> string \<times> val \<Rightarrow> state \<Rightarrow> state result" where
  "set_style el kv s =
     returns VUndefined
       (update_node el (\<lambda>n. n\<lparr>styleProps :=
          filter (\<lambda>(k, _). k \<noteq> fst kv) (styleProps n) @ [kv]\<rparr>) s)"

definition set_innerHTML :: "nid \<Rightarrow> val \<Rightarrow> state \<Rightarrow> state result" where
  "set_innerHTML el v =
     withText (ToString v) (\<lambda>txt s.
       let s1 = fold detach (childNodes (nodes s el)) s
       in returns VUndefined
            (update_node el (\<lambda>n. n\<lparr>childNodes := [], innerHTML := Some txt\<rparr>) s1))"

text \<open>
  \<^verbatim>\<open>addEventListener\<close> takes a function or an object as listener and throws a
  \<^verbatim>\<open>TypeError\<close> on any other value that is not null.
\<close>

definition addEventListener :: "nid \<Rightarrow> string \<Rightarrow> val \<Rightarrow> state \<Rightarrow> state result" where
  "addEventListener el eventName v s =
     (if is_function v \<or> is_object v
      then returns VUndefined
             (update_node el (\<lambda>n. n\<lparr>listeners := listeners n @ [(eventName, v)]\<rparr>) s)
      else throws (TypeError ''parameter 2 is not of type Object'') s)"

definition SVG_TAGS :: "string list" where
  "SVG_TAGS = [''svg'', ''path'', ''circle'', ''rect'', ''line'', ''polygon'', ''polyline'',
     ''ellipse'', ''g'', ''text'', ''defs'', ''filter'', ''mask'', ''marker'', ''pattern'',
     ''linearGradient'', ''radialGradient'', ''stop'', ''use'', ''clipPath'', ''textPath'',
     ''tspan'', ''foreignObject'']"

definition namespaceMap :: "string \<Rightarrow> string option" where
  "namespaceMap ns =
     (if ns = ''xlink'' then Some ''http://www.w3.org/1999/xlink''
      else if ns = ''xml'' then Some ''http://www.w3.org/XML/1998/namespace''
      else None)"

text \<open>One round of the loop over \<^verbatim>\<open>Object.entries(properties)\<close>, lines 133-184.\<close>

definition apply_property ::
  "state caller \<Rightarrow> nid \<Rightarrow> bool \<Rightarrow> string \<times> val \<Rightarrow> state \<Rightarrow> state result" where
  "apply_property call element isSvgElement pv s =
     (case pv of (propertyName, propertyValue) \<Rightarrow>
      if nullish propertyValue then returns VUndefined s
      else if propertyName = ''value''
      then returns VUndefined (update_node element (\<lambda>n. n\<lparr>valueProp := Some propertyValue\<rparr>) s)
      else if propertyName = ''className'' \<or> propertyName = ''class''
      then setAttribute element ''class'' propertyValue s
      else if propertyName = ''style'' \<and> is_object propertyValue
      then forEach (set_style element) (entries s propertyValue) s
      else if propertyName = ''dangerouslySetInnerHTML''
              \<and> truthy (prop_of s propertyValue ''__html'')
      then set_innerHTML element (prop_of s propertyValue ''__html'') s
      else if propertyName = ''ref''
      then (if is_function propertyValue
            then thenDo (invoke call propertyValue [VNode element] s) (\<lambda>_. returns VUndefined)
            else if truthy propertyValue
            then thenDo (has_prop ''current'' propertyValue s) (\<lambda>b s1.
                   case propertyValue of
                     VObj k \<Rightarrow> returns VUndefined
                                 (if b = VBool True then set_prop k ''current'' (VNode element) s1
                                  else s1)
                   | _ \<Rightarrow> returns VUndefined s1)
            else returns VUndefined s)
      else if take 2 propertyName = ''on''
      then addEventListener element (toLowerCase (drop 2 propertyName)) propertyValue s
      else if isSvgElement
      then (if CHR '':'' \<in> set propertyName
            then (case namespaceMap (hd (split_on CHR '':'' propertyName)) of
                    Some ns \<Rightarrow> setAttributeNS element ns
                                 (hd (tl (split_on CHR '':'' propertyName))) propertyValue s
                  | None \<Rightarrow> setAttribute element propertyName propertyValue s)
            else setAttribute element propertyName propertyValue s)
      else (case propertyValue of
              VBool b \<Rightarrow> (if b then setAttribute element propertyName (VStr []) s
                          else removeAttribute element propertyName s)
            | _ \<Rightarrow> setAttribute element propertyName propertyValue s))"

subsection \<open>Binding a child: appendChild (lines 188-282)\<close>

text \<open>
  \<open>append_item\<close> is the expression \<^verbatim>\<open>x instanceof Node ? x : document.createTextNode(String(x))\<close>
  appended to a parent, as on lines 89-93, 217-221 and 334-336.
\<close>

definition append_item :: "nid \<Rightarrow> val \<Rightarrow> state \<Rightarrow> state result" where
  "append_item p x s =
     (case x of
        VNode n \<Rightarrow> dom_appendChild p n s
      | _ \<Rightarrow> withText (String_of x) (\<lambda>txt s1.
               thenDo (createTextNode txt s1) (\<lambda>t s2.
                 case t of VNode n \<Rightarrow> dom_appendChild p n s2 | _ \<Rightarrow> returns t s2)) s)"

text \<open>
  The loop \<^verbatim>\<open>while (placeholderNode.nextSibling) parentElement.removeChild(placeholderNode.nextSibling)\<close>
  of lines 225-227 and 234-236. Every round that does not throw removes a child of
  \<^verbatim>\<open>parentElement\<close>, so the loop ends.
\<close>

function remove_following :: "nid \<Rightarrow> nid \<Rightarrow> state \<Rightarrow> state result" where
  "remove_following parentElement placeholderNode s =
     (case nextSibling s placeholderNode of
        None \<Rightarrow> returns VUndefined s
      | Some n \<Rightarrow> (case removeChild parentElement n s of
                    Some (Inr v, s') \<Rightarrow> remove_following parentElement placeholderNode s'
                  | r \<Rightarrow> r))"
  by pat_completeness auto
termination
proof (relation "measure (\<lambda>(p, ph, s). length (childNodes (nodes s p)))")
  show "wf (measure (\<lambda>(p, ph, s). length (childNodes (nodes s p))))"
    by simp
qed (auto simp: removeChild_def returns_def throws_def Let_def length_removeAll_less
      split: if_splits)

declare remove_following.simps [simp del]

text \<open>The effect function of a reactive child, lines 205-248.\<close>

definition error_text :: "string \<Rightarrow> val \<Rightarrow> (string \<Rightarrow> state \<Rightarrow> state result) \<Rightarrow> state \<Rightarrow> state result" where
  "error_text prefix error k s =
     thenDo (get_prop error ''message'' s) (\<lambda>m. withText (ToString m) (\<lambda>txt. k (prefix @ txt)))"

definition childEffect ::
  "state caller \<Rightarrow> nid \<Rightarrow> nid \<Rightarrow> val \<Rightarrow> state \<Rightarrow> state result" where
  "childEffect call parentElement placeholderNode childElement s =
     tryCatch
       (thenDo (invoke call childElement [] s) (\<lambda>functionResult s1.
          if nullish functionResult then set_textContent placeholderNode [] s1
          else case functionResult of
            VArr xs \<Rightarrow>
              thenDo (createDocumentFragment s1) (\<lambda>resultFragment s2.
                case resultFragment of
                  VNode frag \<Rightarrow>
                    thenDo (forEach (\<lambda>resultItem. if nullish resultItem then returns VUndefined
                                                   else append_item frag resultItem)
                              (flat xs) s2) (\<lambda>_ s3.
                    thenDo (remove_following parentElement placeholderNode s3) (\<lambda>_ s4.
                    thenDo (insertBefore parentElement frag (nextSibling s4 placeholderNode) s4)
                      (\<lambda>_. returns VUndefined)))
                | _ \<Rightarrow> returns VUndefined s2)
          | VNode n \<Rightarrow>
              thenDo (remove_following parentElement placeholderNode s1) (\<lambda>_ s2.
              thenDo (insertBefore parentElement n (nextSibling s2 placeholderNode) s2)
                (\<lambda>_. returns VUndefined))
          | _ \<Rightarrow> withText (String_of functionResult) (set_textContent placeholderNode) s1))
       (\<lambda>error s'.
          thenDo (console_error ''Error in reactive child function:'' (Some error) s') (\<lambda>_.
            error_text ''Error: '' error (set_textContent placeholderNode)))"

text \<open>The two handlers given to a promise-like child, lines 258-273.\<close>

definition promiseResolved :: "nid \<Rightarrow> nid \<Rightarrow> val \<Rightarrow> state \<Rightarrow> state result" where
  "promiseResolved parentElement placeholderNode promiseResult s =
     tryCatch
       (case promiseResult of
          VNode n \<Rightarrow> thenDo (replaceChild parentElement n placeholderNode s)
                       (\<lambda>_. returns VUndefined)
        | _ \<Rightarrow> withText (String_of promiseResult) (set_textContent placeholderNode) s)
       (\<lambda>error s'.
          thenDo (console_error ''Error resolving promise in DOM:'' (Some error) s') (\<lambda>_.
            error_text ''Error: '' error (set_textContent placeholderNode)))"

definition promiseRejected :: "nid \<Rightarrow> val \<Rightarrow> state \<Rightarrow> state result" where
  "promiseRejected placeholderNode error s =
     thenDo (console_error ''Promise rejected in DOM:'' (Some error) s) (\<lambda>_.
       error_text ''Error: '' error (set_textContent placeholderNode))"

text \<open>
  The body of \<^verbatim>\<open>appendChild\<close> for a child that is neither null nor an array, lines
  199-278.
\<close>

definition bind_child ::
  "state caller \<Rightarrow> nid \<Rightarrow> val \<Rightarrow> state \<Rightarrow> state result" where
  "bind_child call parentElement childElement s =
     (case childElement of
        VNode n \<Rightarrow> thenDo (dom_appendChild parentElement n s) (\<lambda>_. returns VUndefined)
      | VFun f \<Rightarrow>
          thenDo (createTextNode [] s) (\<lambda>placeholderNode s1.
            case placeholderNode of
              VNode ph \<Rightarrow>
                thenDo (dom_appendChild parentElement ph s1) (\<lambda>_.
                  setEffect call (VFun (ChildEffect parentElement ph childElement)))
            | _ \<Rightarrow> returns VUndefined s1)
      | _ \<Rightarrow>
          if is_object childElement \<and> is_function (prop_of s childElement ''then'')
          then
            thenDo (createTextNode [] s) (\<lambda>placeholderNode s1.
              case placeholderNode of
                VNode ph \<Rightarrow>
                  thenDo (dom_appendChild parentElement ph s1) (\<lambda>_ s2.
                  thenDo (invoke call (prop_of s2 childElement ''then'')
                            [VFun (PromiseResolved parentElement ph)] s2) (\<lambda>chained s3.
                  thenDo (get_prop chained ''catch'' s3) (\<lambda>catchFunction s4.
                  thenDo (invoke call catchFunction [VFun (PromiseRejected ph)] s4)
                    (\<lambda>_. returns VUndefined))))
              | _ \<Rightarrow> returns VUndefined s1)
          else thenDo (append_item parentElement childElement s) (\<lambda>_. returns VUndefined))"

text \<open>
  \<^verbatim>\<open>appendChild\<close> itself. On an array it calls itself on every element of
  \<^verbatim>\<open>childElement.flat(Infinity)\<close>, none of which is an array: \<open>appendChild_flat\<close> is
  \<^verbatim>\<open>appendChild\<close> on such an element.
\<close>

definition appendChild_flat ::
  "state caller \<Rightarrow> nid \<Rightarrow> val \<Rightarrow> state \<Rightarrow> state result" where
  "appendChild_flat call parentElement childElement s =
     tryCatch
       (if nullish childElement then returns VUndefined s
        else bind_child call parentElement childElement s)
       (\<lambda>error. console_error ''Error appending child:'' (Some error))"

definition appendChild ::
  "state caller \<Rightarrow> nid \<Rightarrow> val \<Rightarrow> state \<Rightarrow> state result" where
  "appendChild call parentElement childElement s =
     tryCatch
       (if nullish childElement then returns VUndefined s
        else case childElement of
               VArr xs \<Rightarrow> forEach (appendChild_flat call parentElement) (flat xs) s
             | _ \<Rightarrow> bind_child call parentElement childElement s)
       (\<lambda>error. console_error ''Error appending child:'' (Some error))"

subsection \<open>html\<close>

text \<open>
  The three branches of the body: a function component (lines 76-83), a fragment (lines
  85-97) and an element (lines 99-285).
\<close>

definition html_component ::
  "state caller \<Rightarrow> val \<Rightarrow> val \<Rightarrow> val list \<Rightarrow> state \<Rightarrow> state result" where
  "html_component call tagName properties children s =
     tryCatch (invoke call tagName (properties # children) s)
       (\<lambda>error s'.
          thenDo (console_error ''Error in function component:'' (Some error) s') (\<lambda>_.
            error_text ''Error in component: '' error createComment))"

definition html_fragment :: "val list \<Rightarrow> state \<Rightarrow> state result" where
  "html_fragment children s =
     thenDo (createDocumentFragment s) (\<lambda>documentFragment s1.
       case documentFragment of
         VNode frag \<Rightarrow>
           thenDo (forEach (\<lambda>child. if nullish child then returns VUndefined
                                    else append_item frag child)
                     (flat children) s1)
             (\<lambda>_. returns documentFragment)
       | _ \<Rightarrow> returns documentFragment s1)"

definition html_element ::
  "state caller \<Rightarrow> val \<Rightarrow> val \<Rightarrow> val list \<Rightarrow> state \<Rightarrow> state result" where
  "html_element call tagName properties children s =
     (let isSvgElement = (case tagName of VStr name \<Rightarrow> name \<in> set SVG_TAGS | _ \<Rightarrow> False)
      in thenDo (if isSvgElement then createElementNS SVG_NS (text_of tagName) s
                 else withText (ToString tagName) createElement s) (\<lambda>element s1.
           case element of
             VNode el \<Rightarrow>
               thenDo (if truthy properties
                       then forEach (apply_property call el isSvgElement)
                              (entries s1 properties) s1
                       else returns VUndefined s1) (\<lambda>_ s2.
               thenDo (forEach (appendChild call el) children s2)
                 (\<lambda>_. returns element))
           | _ \<Rightarrow> returns element s1))"

definition html ::
  "state caller \<Rightarrow> val \<Rightarrow> val \<Rightarrow> val list \<Rightarrow> state \<Rightarrow> state result" where
  "html call tagName properties children s =
     tryCatch
       (if is_function tagName then html_component call tagName properties children s
        else if tagName = Fragment \<or> \<not> truthy tagName then html_fragment children s
        else html_element call tagName properties children s)
       (\<lambda>error s'.
          thenDo (console_error ''Error creating element:'' (Some error) s') (\<lambda>_.
            error_text ''Error creating element: '' error createComment))"

section \<open>Mounting: render (core.js lines 292-354)\<close>

text \<open>
  \<^verbatim>\<open>rootElement\<close> is whatever the caller passed; what an assignment to its
  \<^verbatim>\<open>textContent\<close> and a call of its \<^verbatim>\<open>appendChild\<close> do depends on what it is. The module
  is strict code, so assigning a property of a primitive throws.
\<close>

definition assign_textContent :: "val \<Rightarrow> string \<Rightarrow> state \<Rightarrow> state result" where
  "assign_textContent root txt s =
     (case root of
        VNode n \<Rightarrow> set_textContent n txt s
      | VObj k \<Rightarrow> returns VUndefined (set_prop k ''textContent'' (VStr txt) s)
      | _ \<Rightarrow> if is_object root \<or> is_function root then returns VUndefined s
             else throws (TypeError (''Cannot set properties of '' @ text_of root)) s)"

definition call_appendChild ::
  "state caller \<Rightarrow> val \<Rightarrow> val \<Rightarrow> state \<Rightarrow> state result" where
  "call_appendChild call root child s =
     (case root of
        VNode p \<Rightarrow> (case child of
                      VNode n \<Rightarrow> dom_appendChild p n s
                    | _ \<Rightarrow> throws (TypeError ''parameter 1 is not of type Node'') s)
      | _ \<Rightarrow> thenDo (get_prop root ''appendChild'' s) (\<lambda>f. invoke call f [child]))"

definition option_or :: "val \<Rightarrow> string \<Rightarrow> val \<Rightarrow> state \<Rightarrow> val" where
  "option_or options name dflt s =
     (let v = prop_of s options name in if v = VUndefined then dflt else v)"

definition mount_item :: "state caller \<Rightarrow> val \<Rightarrow> val \<Rightarrow> state \<Rightarrow> state result" where
  "mount_item call root x s =
     (case x of
        VNode n \<Rightarrow> call_appendChild call root x s
      | _ \<Rightarrow> thenDo (get_prop root ''appendChild'' s) (\<lambda>_.
               withText (String_of x) (\<lambda>txt s1.
                 thenDo (createTextNode txt s1) (call_appendChild call root))))"

text \<open>The handler of the inner \<^verbatim>\<open>try\<close>, lines 319-326.\<close>

definition render_error :: "state caller \<Rightarrow> val \<Rightarrow> val \<Rightarrow> state \<Rightarrow> state result" where
  "render_error call root error s =
     thenDo (console_error ''Error rendering component:'' (Some error) s) (\<lambda>_ s1.
     thenDo (createElement ''div'' s1) (\<lambda>errorNode s2.
       case errorNode of
         VNode en \<Rightarrow>
           thenDo (setAttribute en ''class'' (VStr ''olova-error'') s2) (\<lambda>_.
           error_text ''Render Error: '' error (\<lambda>txt s3.
           thenDo (set_textContent en txt s3) (\<lambda>_ s4.
           thenDo (call_appendChild call root errorNode s4) (\<lambda>_. returns errorNode))))
       | _ \<Rightarrow> returns errorNode s2))"

text \<open>Mounting the content, lines 328-349.\<close>

definition mount_view :: "state caller \<Rightarrow> val \<Rightarrow> val \<Rightarrow> state \<Rightarrow> state result" where
  "mount_view call root viewContent s =
     (if \<not> truthy viewContent then returns VNull s
      else case viewContent of
        VArr xs \<Rightarrow>
          thenDo (createDocumentFragment s) (\<lambda>contentFragment s1.
            case contentFragment of
              VNode frag \<Rightarrow>
                thenDo (forEach (\<lambda>node. if truthy node then append_item frag node
                                         else returns VUndefined)
                          (flat xs) s1) (\<lambda>_ s2.
                thenDo (call_appendChild call root contentFragment s2)
                  (\<lambda>_. returns contentFragment))
            | _ \<Rightarrow> returns contentFragment s1)
      | _ \<Rightarrow> thenDo (mount_item call root viewContent s) (\<lambda>_. returns viewContent))"

text \<open>
  Lines 302-349, once the root is resolved. The parameter default \<^verbatim>\<open>options = {}\<close>
  replaces an \<^verbatim>\<open>undefined\<close> argument only; destructuring \<^verbatim>\<open>null\<close> throws.
\<close>

definition render_into ::
  "state caller \<Rightarrow> val \<Rightarrow> val \<Rightarrow> val \<Rightarrow> state \<Rightarrow> state result" where
  "render_into call component root options s =
     (if options = VNull then throws (TypeError ''Cannot destructure null'') s
      else
        (let clear = option_or options ''clear'' (VBool True) s;
             hydrate = option_or options ''hydrate'' (VBool False) s;
             beforeRender = option_or options ''beforeRender'' VNull s
         in
         thenDo (if truthy clear \<and> \<not> truthy hydrate then assign_textContent root [] s
                 else returns VUndefined s) (\<lambda>_ s1.
         thenDo (if truthy beforeRender \<and> is_function beforeRender
                 then tryCatch (invoke call beforeRender [root] s1)
                        (\<lambda>error. console_error ''Error in beforeRender hook:'' (Some error))
                 else returns VUndefined s1) (\<lambda>_ s2.
         (case (if is_function component then invoke call component [] s2
                else returns component s2) of
            None \<Rightarrow> None
          | Some (Inl error, s3) \<Rightarrow> render_error call root error s3
          | Some (Inr viewContent, s3) \<Rightarrow> mount_view call root viewContent s3)))))"

definition render ::
  "state caller \<Rightarrow> val \<Rightarrow> val \<Rightarrow> val \<Rightarrow> state \<Rightarrow> state result" where
  "render call component rootElement options s =
     tryCatch
       (case rootElement of
          VStr selector \<Rightarrow>
            (case querySelector s selector of
               Inl e \<Rightarrow> throws e s
             | Inr found \<Rightarrow>
                 if \<not> truthy found
                 then withText (ToString found) (\<lambda>txt.
                        console_error (''Cannot find element matching selector: '' @ txt) None) s
                 else render_into call component found options s)
        | _ \<Rightarrow> render_into call component rootElement options s)
       (\<lambda>error s'.
          thenDo (console_error ''Error in render function:'' (Some error) s')
            (\<lambda>_. returns VNull))"

section \<open>Application callbacks and the closed system\<close>

text \<open>
  The callbacks of an application are expressions: constants, the arguments of the
  enclosing function, sequencing, a conditional on truthiness, \<^verbatim>\<open>throw\<close>, a call of a
  function value, the successor of a number (\<^verbatim>\<open>n + 1\<close>, a \<^verbatim>\<open>TypeError\<close> on anything but a
  number), reading and assigning a variable of the application, and an array literal.
  An argument that was not passed is \<^verbatim>\<open>undefined\<close>.
  Every construct can be written in JavaScript, and the runtime is reached only through
  calls of its function values.
\<close>

definition arg :: "nat \<Rightarrow> val list \<Rightarrow> val" where
  "arg i args = (if i < length args then args ! i else VUndefined)"

fun eval :: "state caller \<Rightarrow> val list \<Rightarrow> expr \<Rightarrow> state \<Rightarrow> state result"
  and eval_list :: "state caller \<Rightarrow> val list \<Rightarrow> expr list \<Rightarrow> state \<Rightarrow> state result" where
  "eval call args (Const v) s = returns v s"
| "eval call args (Arg i) s = returns (arg i args) s"
| "eval call args (Seq a b) s =
     (case eval call args a s of
        Some (Inr v, s1) \<Rightarrow> eval call args b s1
      | r \<Rightarrow> r)"
| "eval call args (If c a b) s =
     (case eval call args c s of
        Some (Inr v, s1) \<Rightarrow> if truthy v then eval call args a s1 else eval call args b s1
      | r \<Rightarrow> r)"
| "eval call args (Throw e) s =
     (case eval call args e s of
        Some (Inr v, s1) \<Rightarrow> throws v s1
      | r \<Rightarrow> r)"
| "eval call args (Call f es) s =
     (case eval call args f s of
        Some (Inr fv, s1) \<Rightarrow>
          (case eval_list call args es s1 of
             Some (Inr (VArr vs), s2) \<Rightarrow> invoke call fv vs s2
           | r \<Rightarrow> r)
      | r \<Rightarrow> r)"
| "eval call args (Succ e) s =
     (case eval call args e s of
        Some (Inr (VNum n), s1) \<Rightarrow> returns (VNum (n + 1)) s1
      | Some (Inr v, s1) \<Rightarrow> throws (TypeError ''not a number'') s1
      | r \<Rightarrow> r)"
| "eval call args (GetVar x) s = returns (vars s x) s"
| "eval call args (SetVar x e) s =
     (case eval call args e s of
        Some (Inr v, s1) \<Rightarrow> returns v (s1\<lparr>vars := (vars s1)(x := v)\<rparr>)
      | r \<Rightarrow> r)"
| "eval call args (ArrayLit es) s = eval_list call args es s"
| "eval_list call args [] s = returns (VArr []) s"
| "eval_list call args (e # es) s =
     (case eval call args e s of
        Some (Inr v, s1) \<Rightarrow>
          (case eval_list call args es s1 of
             Some (Inr (VArr vs), s2) \<Rightarrow> returns (VArr (v # vs)) s2
           | r \<Rightarrow> r)
      | r \<Rightarrow> r)"

text \<open>
  Calling a function value: the closures of the runtime run the source function they
  stand for, a callback evaluates its body.
\<close>

definition apply_fn :: "state caller \<Rightarrow> fn \<Rightarrow> val list \<Rightarrow> state \<Rightarrow> state result" where
  "apply_fn call f args s =
     (case f of
        Getter k \<Rightarrow> signal_read k s
      | Setter k \<Rightarrow> signal_write call k (arg 0 args) s
      | RunEffect e effectFunction \<Rightarrow> runEffect call (VFun f) effectFunction s
      | MemoBody k memoFunction \<Rightarrow> memoBody call k memoFunction s
      | ChildEffect p ph childElement \<Rightarrow> childEffect call p ph childElement s
      | PromiseResolved p ph \<Rightarrow> promiseResolved p ph (arg 0 args) s
      | PromiseRejected ph \<Rightarrow> promiseRejected ph (arg 0 args) s
      | Exported PsetSignal \<Rightarrow> setSignal (arg 0 args) s
      | Exported PsetEffect \<Rightarrow> setEffect call (arg 0 args) s
      | Exported PsetMemo \<Rightarrow> setMemo call (arg 0 args) s
      | Exported Phtml \<Rightarrow> html call (arg 0 args) (arg 1 args) (drop 2 args) s
      | Exported Prender \<Rightarrow> render call (arg 0 args) (arg 1 args) (arg 2 args) s
      | Lam body \<Rightarrow> eval call args body s)"

definition apply_val :: "state caller \<Rightarrow> state caller" where
  "apply_val call f args s =
     (case f of
        VFun g \<Rightarrow> apply_fn call g args s
      | _ \<Rightarrow> throws (TypeError (text_of f @ '' is not a function'')) s)"

text \<open>
  \<open>run n\<close> is the whole system with calls nested at most \<open>n\<close> deep: a call that would
  nest deeper has no result. A computation that has no result at any depth is a
  JavaScript recursion that does not end.
\<close>

primrec run :: "nat \<Rightarrow> state caller" where
  "run 0 = (\<lambda>f args s. None)"
| "run (Suc n) = apply_val (run n)"

section \<open>Reading the recorded events\<close>

text \<open>
  \<open>fanout_events fs evs\<close>: the events \<open>evs\<close> are those of one round of the loop on lines
  20-26 per function of \<open>fs\<close>, in order: the function is called once with no argument, and
  when the call threw, the error is reported next. \<open>calls_of\<close> lists the functions called.
\<close>

fun fanout_events :: "val list \<Rightarrow> event list \<Rightarrow> bool" where
  "fanout_events [] evs = (evs = [])"
| "fanout_events (f # fs) (Called g args (Inr v) inner # evs) =
     (g = f \<and> args = [] \<and> fanout_events fs evs)"
| "fanout_events (f # fs) (Called g args (Inl e) inner # Logged label x # evs) =
     (g = f \<and> args = [] \<and> label = ''Error in signal subscriber:'' \<and> x = Some e
      \<and> fanout_events fs evs)"
| "fanout_events (f # fs) evs = False"

fun calls_of :: "event list \<Rightarrow> val list" where
  "calls_of [] = []"
| "calls_of (Called f args r inner # evs) = f # calls_of evs"
| "calls_of (Logged label x # evs) = calls_of evs"

section \<open>Predicates on results\<close>

text \<open>
  A computation throws nothing but error objects; it throws nothing at all; it has a result
  (it ends).
\<close>

definition only_errors :: "state result \<Rightarrow> bool" where
  "only_errors m = (case m of Some (Inl e, s) \<Rightarrow> is_error e | _ \<Rightarrow> True)"


definition defined :: "'s result \<Rightarrow> bool" where
  "defined m = (m \<noteq> None)"

section \<open>Example states and callbacks\<close>

text \<open>
  A signal holding 0 with two subscribed effects: the first throws, the second adds one to
  the application's variable 0.
\<close>

definition fails_effect :: val where
  "fails_effect = VFun (RunEffect 0 (VFun (Lam (Throw (Const (VError ''boom''))))))"

definition counts_effect :: val where
  "counts_effect = VFun (RunEffect 1 (VFun (Lam (SetVar 0 (Succ (GetVar 0))))))"

definition two_subscribers :: state where
  "two_subscribers = init_state
     \<lparr> signals := (signals init_state)
          (0 := \<lparr> initialValue = VNum 0, subscribers = [fails_effect, counts_effect] \<rparr>),
       nextSignal := 1, nextEffect := 2, vars := (vars init_state)(0 := VNum 0) \<rparr>"

text \<open>An updater function that throws.\<close>

definition failing_updater :: fn where
  "failing_updater = Lam (Throw (Const (VError ''bad'')))"


text \<open>An effect callback that throws.\<close>

definition throwing_callback :: val where
  "throwing_callback = VFun (Lam (Throw (Const (VError ''boom''))))"

text \<open>
  A signal holding 1 with no subscriber, and two effect callbacks that read it into the
  application's variable 0: \<^verbatim>\<open>() => { x = read() }\<close> and
  \<^verbatim>\<open>() => { setEffect(() => undefined); x = read() }\<close>.
\<close>

definition reads_after_nested_effect :: val where
  "reads_after_nested_effect =
     VFun (Lam (Seq (Call (Const (VFun (Exported PsetEffect))) [Const (VFun (Lam (Const VUndefined)))])
                    (SetVar 0 (Call (Const (VFun (Getter 0))) []))))"

definition reads_only :: val where
  "reads_only = VFun (Lam (SetVar 0 (Call (Const (VFun (Getter 0))) [])))"

definition one_signal :: state where
  "one_signal = init_state
     \<lparr> signals := (signals init_state)(0 := \<lparr> initialValue = VNum 1, subscribers = [] \<rparr>),
       nextSignal := 1 \<rparr>"

text \<open>
  The test of the specification, for a value \<open>v\<close>:
  \<^verbatim>\<open>const [r, w] = setSignal(v); let n = 0; setEffect(() => { r(); n = n + 1 }); w(r())\<close>.
\<close>

definition counting_reader :: val where
  "counting_reader =
     VFun (Lam (Seq (Call (Const (VFun (Getter 0))) []) (SetVar 0 (Succ (GetVar 0)))))"

definition write_back :: "val \<Rightarrow> expr" where
  "write_back v =
     Seq (Call (Const (VFun (Exported PsetSignal))) [Const v])
    (Seq (SetVar 0 (Const (VNum 0)))
    (Seq (Call (Const (VFun (Exported PsetEffect))) [Const counting_reader])
         (Call (Const (VFun (Setter 0))) [Call (Const (VFun (Getter 0))) []])))"

text \<open>
  A document that holds one empty \<^verbatim>\<open>div\<close> element, node 0, and a component that returns
  the string \<^verbatim>\<open>"hi"\<close>.
\<close>

definition root_only :: state where
  "root_only = init_state
     \<lparr> nodes := (nodes init_state)
          (0 := blank_node\<lparr>kind := ElementNode, localName := ''div'', namespaceURI := HTML_NS\<rparr>),
       nextNode := 1 \<rparr>"

definition says_hi :: fn where
  "says_hi = Lam (Const (VStr ''hi''))"




text \<open>
  The conditional rendering of the repository's examples:
  \<^verbatim>\<open>const [show, setShow] = setSignal(true)\<close>, the nodes \<^verbatim>\<open><p>yes</p>\<close>, \<^verbatim>\<open><p>no</p>\<close> and
  \<^verbatim>\<open><span>static</span>\<close> kept in the variables 1, 2 and 3, and
  \<^verbatim>\<open><div>{child}<span>static</span></div>\<close> where the reactive child is either
  \<^verbatim>\<open>() => show() ? <p>yes</p> : <p>no</p>\<close> or \<^verbatim>\<open>() => show() && <p>yes</p>\<close>;
  \<open>hide\<close> is \<^verbatim>\<open>setShow(false)\<close>.
\<close>

definition call_html :: "string \<Rightarrow> expr list \<Rightarrow> expr" where
  "call_html tag children =
     Call (Const (VFun (Exported Phtml))) (Const (VStr tag) # Const VNull # children)"

definition shown_or_hidden :: val where
  "shown_or_hidden = VFun (Lam (If (Call (Const (VFun (Getter 0))) []) (GetVar 1) (GetVar 2)))"

definition shown_only :: val where
  "shown_only =
     VFun (Lam (If (Call (Const (VFun (Getter 0))) []) (GetVar 1) (Const (VBool False))))"

definition conditional_page :: "val \<Rightarrow> expr \<Rightarrow> expr" where
  "conditional_page child then_do =
     Seq (Call (Const (VFun (Exported PsetSignal))) [Const (VBool True)])
    (Seq (SetVar 1 (call_html ''p'' [Const (VStr ''yes'')]))
    (Seq (SetVar 2 (call_html ''p'' [Const (VStr ''no'')]))
    (Seq (SetVar 3 (call_html ''span'' [Const (VStr ''static'')]))
    (Seq (SetVar 4 (call_html ''div'' [Const child, GetVar 3]))
         then_do))))"

definition hide :: expr where
  "hide = Call (Const (VFun (Setter 0))) [Const (VBool False)]"




section \<open>Callbacks that only read signals\<close>

text \<open>
  Callbacks that only read signals and compute. \<open>reads_signals_below n e\<close>: the body \<open>e\<close>
  only computes from the signals created so far (those below \<open>n\<close>): it calls no function
  but their read accessors, assigns no variable and holds no function constant.
  \<open>pure_value \<sigma> e\<close> is the outcome of such a body when the signals hold the values \<open>\<sigma>\<close>,
  and \<open>pure_reads \<sigma> e\<close> are the signals it reads on the way.
\<close>

fun getter_of :: "expr \<Rightarrow> sid option" where
  "getter_of (Const (VFun (Getter k))) = Some k"
| "getter_of e = None"

fun reads_signals_below :: "nat \<Rightarrow> expr \<Rightarrow> bool"
  and reads_signals_below_list :: "nat \<Rightarrow> expr list \<Rightarrow> bool" where
  "reads_signals_below n (Const v) = (\<not> is_function v)"
| "reads_signals_below n (Arg i) = True"
| "reads_signals_below n (Seq a b) = (reads_signals_below n a \<and> reads_signals_below n b)"
| "reads_signals_below n (If c a b) =
     (reads_signals_below n c \<and> reads_signals_below n a \<and> reads_signals_below n b)"
| "reads_signals_below n (Throw e) = reads_signals_below n e"
| "reads_signals_below n (Call f es) =
     (case getter_of f of Some k \<Rightarrow> k < n \<and> es = [] | None \<Rightarrow> False)"
| "reads_signals_below n (Succ e) = reads_signals_below n e"
| "reads_signals_below n (GetVar x) = False"
| "reads_signals_below n (SetVar x e) = False"
| "reads_signals_below n (ArrayLit es) = reads_signals_below_list n es"
| "reads_signals_below_list n [] = True"
| "reads_signals_below_list n (e # es) =
     (reads_signals_below n e \<and> reads_signals_below_list n es)"

fun pure_value :: "(sid \<Rightarrow> val) \<Rightarrow> expr \<Rightarrow> outcome"
  and pure_value_list :: "(sid \<Rightarrow> val) \<Rightarrow> expr list \<Rightarrow> outcome" where
  "pure_value \<sigma> (Const v) = Inr v"
| "pure_value \<sigma> (Arg i) = Inr VUndefined"
| "pure_value \<sigma> (Seq a b) =
     (case pure_value \<sigma> a of Inr v \<Rightarrow> pure_value \<sigma> b | Inl e \<Rightarrow> Inl e)"
| "pure_value \<sigma> (If c a b) =
     (case pure_value \<sigma> c of
        Inr v \<Rightarrow> if truthy v then pure_value \<sigma> a else pure_value \<sigma> b
      | Inl e \<Rightarrow> Inl e)"
| "pure_value \<sigma> (Throw e) =
     (case pure_value \<sigma> e of Inr v \<Rightarrow> Inl v | Inl x \<Rightarrow> Inl x)"
| "pure_value \<sigma> (Call f es) =
     (case getter_of f of Some k \<Rightarrow> Inr (\<sigma> k) | None \<Rightarrow> Inl VUndefined)"
| "pure_value \<sigma> (Succ e) =
     (case pure_value \<sigma> e of
        Inr (VNum n) \<Rightarrow> Inr (VNum (n + 1))
      | Inr v \<Rightarrow> Inl (TypeError ''not a number'')
      | Inl x \<Rightarrow> Inl x)"
| "pure_value \<sigma> (GetVar x) = Inr VUndefined"
| "pure_value \<sigma> (SetVar x e) = Inr VUndefined"
| "pure_value \<sigma> (ArrayLit es) = pure_value_list \<sigma> es"
| "pure_value_list \<sigma> [] = Inr (VArr [])"
| "pure_value_list \<sigma> (e # es) =
     (case pure_value \<sigma> e of
        Inr v \<Rightarrow> (case pure_value_list \<sigma> es of
                    Inr (VArr vs) \<Rightarrow> Inr (VArr (v # vs))
                  | r \<Rightarrow> r)
      | Inl x \<Rightarrow> Inl x)"

fun pure_reads :: "(sid \<Rightarrow> val) \<Rightarrow> expr \<Rightarrow> sid set"
  and pure_reads_list :: "(sid \<Rightarrow> val) \<Rightarrow> expr list \<Rightarrow> sid set" where
  "pure_reads \<sigma> (Const v) = {}"
| "pure_reads \<sigma> (Arg i) = {}"
| "pure_reads \<sigma> (Seq a b) =
     pure_reads \<sigma> a \<union> (case pure_value \<sigma> a of Inr v \<Rightarrow> pure_reads \<sigma> b | Inl e \<Rightarrow> {})"
| "pure_reads \<sigma> (If c a b) =
     pure_reads \<sigma> c \<union>
     (case pure_value \<sigma> c of
        Inr v \<Rightarrow> if truthy v then pure_reads \<sigma> a else pure_reads \<sigma> b
      | Inl e \<Rightarrow> {})"
| "pure_reads \<sigma> (Throw e) = pure_reads \<sigma> e"
| "pure_reads \<sigma> (Call f es) = (case getter_of f of Some k \<Rightarrow> {k} | None \<Rightarrow> {})"
| "pure_reads \<sigma> (Succ e) = pure_reads \<sigma> e"
| "pure_reads \<sigma> (GetVar x) = {}"
| "pure_reads \<sigma> (SetVar x e) = {}"
| "pure_reads \<sigma> (ArrayLit es) = pure_reads_list \<sigma> es"
| "pure_reads_list \<sigma> [] = {}"
| "pure_reads_list \<sigma> (e # es) =
     pure_reads \<sigma> e \<union>
     (case pure_value \<sigma> e of Inr v \<Rightarrow> pure_reads_list \<sigma> es | Inl x \<Rightarrow> {})"

text \<open>
  The values the signals hold in a state, the signals after the function \<open>E\<close> has been
  added to the subscribers of the signals \<open>K\<close> (what reading them inside the effect \<open>E\<close>
  does), and a run of such a body seen from outside: \<^verbatim>\<open>currentEffect\<close> and the
  counter of effects are as before and the signals read have the current effect among
  their subscribers.
\<close>

definition values_of :: "state \<Rightarrow> sid \<Rightarrow> val" where
  "values_of s = (\<lambda>k. initialValue (signals s k))"

definition subscribed :: "val \<Rightarrow> sid set \<Rightarrow> (sid \<Rightarrow> signal) \<Rightarrow> sid \<Rightarrow> signal" where
  "subscribed E K sg =
     (\<lambda>k. if truthy E \<and> k \<in> K \<and> E \<notin> set (subscribers (sg k))
          then (sg k)\<lparr>subscribers := subscribers (sg k) @ [E]\<rparr> else sg k)"

definition pure_step :: "state \<Rightarrow> sid set \<Rightarrow> state \<Rightarrow> bool" where
  "pure_step s K s' \<longleftrightarrow>
     currentEffect s' = currentEffect s \<and> nextEffect s' = nextEffect s \<and>
     signals s' = subscribed (currentEffect s) K (signals s)"


fun latest :: "(sid \<times> val) list \<Rightarrow> (sid \<Rightarrow> val) \<Rightarrow> sid \<Rightarrow> val" where
  "latest [] \<sigma> = \<sigma>"
| "latest ((k, v) # ws) \<sigma> = latest ws (\<sigma>(k := v))"

text \<open>
  Effects over existing signals: \<open>effect_of i b\<close> is the closure \<^verbatim>\<open>runEffect\<close> that
  \<^verbatim>\<open>setEffect\<close> makes, as its \<open>i\<close>-th effect, for the callback with body \<open>b\<close>;
  \<open>pure_effect N E\<close> says that \<open>E\<close> is such a closure whose body only computes from the
  signals below \<open>N\<close>; \<open>register_effects\<close> is \<^verbatim>\<open>setEffect(() => b)\<close> for each body of a list,
  in order. In \<open>effects_subscribed N s\<close> the subscribers of each signal below \<open>N\<close> are such
  effects, none of them twice, and no signal holds a function.
\<close>

definition effect_of :: "eid \<Rightarrow> expr \<Rightarrow> val" where
  "effect_of i b = VFun (RunEffect i (VFun (Lam b)))"

fun pure_effect :: "nat \<Rightarrow> val \<Rightarrow> bool" where
  "pure_effect N (VFun (RunEffect i (VFun (Lam b)))) = reads_signals_below N b"
| "pure_effect N v = False"


definition effects_subscribed :: "nat \<Rightarrow> state \<Rightarrow> bool" where
  "effects_subscribed N s \<longleftrightarrow>
     (\<forall>j<N. distinct (subscribers (signals s j)) \<and>
            list_all (pure_effect N) (subscribers (signals s j)) \<and>
            \<not> is_function (values_of s j))"




text \<open>
  The memo \<open>M\<close> with the effect \<open>E\<close> and the body \<open>body\<close> is settled in a state: no effect
  is running, the effect is the only subscriber there is and it subscribes to every signal
  the body reads at the current values, the memo's own signal has no subscriber, no
  signal holds a function, and the memo's signal holds what the body returns at the
  current values.
\<close>

definition memo_quiet :: "sid \<Rightarrow> val \<Rightarrow> state \<Rightarrow> bool" where
  "memo_quiet M E s \<longleftrightarrow>
     (\<forall>k<M. subscribers (signals s k) = [] \<or> subscribers (signals s k) = [E]) \<and>
     subscribers (signals s M) = [] \<and>
     (\<forall>k<M. \<not> is_function (values_of s k))"

definition memo_settled :: "sid \<Rightarrow> val \<Rightarrow> expr \<Rightarrow> state \<Rightarrow> bool" where
  "memo_settled M E body s \<longleftrightarrow>
     currentEffect s = VNull \<and> memo_quiet M E s \<and>
     (\<forall>k \<in> pure_reads (values_of s) body. subscribers (signals s k) = [E]) \<and>
     (\<forall>w. pure_value (values_of s) body = Inr w \<longrightarrow> values_of s M = w)"






section \<open>Basic facts\<close>

lemma thenDo_simps [simp]:
  "thenDo None k = None"
  "thenDo (Some (Inl e, s)) k = Some (Inl e, s)"
  "thenDo (Some (Inr v, s)) k = k v s"
  "thenDo (returns v s) k = k v s"
  "thenDo (throws e s) k = throws e s"
  by (simp_all add: thenDo_def returns_def throws_def)

lemma tryCatch_simps [simp]:
  "tryCatch None h = None"
  "tryCatch (Some (Inl e, s)) h = h e s"
  "tryCatch (Some (Inr v, s)) h = Some (Inr v, s)"
  "tryCatch (returns v s) h = returns v s"
  "tryCatch (throws e s) h = h e s"
  by (simp_all add: tryCatch_def returns_def throws_def)

lemma returns_neq [simp]:
  "returns v s \<noteq> None" "throws e s \<noteq> None"
  "(returns v s = Some (r, s')) = (r = Inr v \<and> s' = s)"
  "(throws e s = Some (r, s')) = (r = Inl e \<and> s' = s)"
  by (auto simp: returns_def throws_def)

lemma invoke_function:
  "is_function f \<Longrightarrow> invoke call f args s =
     (case call f args (s\<lparr>trace := []\<rparr>) of
        None \<Rightarrow> None
      | Some (r, t) \<Rightarrow> Some (r, t\<lparr>trace := trace s @ [Called f args r (trace t)]\<rparr>))"
  by (simp add: invoke_def traced_def)

lemma signal_read_value:
  "\<exists>s'. signal_read k s = Some (Inr (initialValue (signals s k)), s')"
  by (auto simp: signal_read_def add_subscriber_def Let_def returns_def tryCatch_def)



section \<open>The write accessor notifies the subscribers\<close>

lemma fanout_calls: "fanout_events fs evs \<Longrightarrow> calls_of evs = fs"
  by (induction fs evs rule: fanout_events.induct) auto

lemma notify_subscriber_cases:
  assumes "is_function f"
  shows "notify_subscriber call f s =
     (case call f [] (s\<lparr>trace := []\<rparr>) of
        None \<Rightarrow> None
      | Some (Inr v, t) \<Rightarrow> Some (Inr v, t\<lparr>trace := trace s @ [Called f [] (Inr v) (trace t)]\<rparr>)
      | Some (Inl e, t) \<Rightarrow> Some (Inr VUndefined,
            t\<lparr>trace := trace s @ [Called f [] (Inl e) (trace t),
                                  Logged ''Error in signal subscriber:'' (Some e)]\<rparr>))"
  using assms
  by (auto simp: notify_subscriber_def invoke_def traced_def console_error_def
      split: option.splits sum.splits prod.splits)

lemma forEach_notify:
  assumes "\<forall>f \<in> set fs. is_function f"
  shows "forEach (notify_subscriber call) fs s = Some (r, s') \<Longrightarrow>
         r = Inr VUndefined \<and> (\<exists>evs. trace s' = trace s @ evs \<and> fanout_events fs evs)"
  using assms
proof (induction fs arbitrary: s)
  case Nil
  then show ?case by simp
next
  case (Cons f fs)
  from Cons.prems have fn: "is_function f" by simp
  show ?case
  proof (cases "call f [] (s\<lparr>trace := []\<rparr>)")
    case None
    with Cons.prems fn show ?thesis
      by (simp add: notify_subscriber_cases)
  next
    case (Some a)
    obtain o1 t where a: "a = (o1, t)" by (cases a)
    show ?thesis
    proof (cases o1)
      case (Inl e)
      let ?s1 = "t\<lparr>trace := trace s @ [Called f [] (Inl e) (trace t),
                                  Logged ''Error in signal subscriber:'' (Some e)]\<rparr>"
      from Cons.prems fn Some a Inl
      have "forEach (notify_subscriber call) fs ?s1 = Some (r, s')"
        by (simp add: notify_subscriber_cases)
      from Cons.IH[OF this] Cons.prems(2) show ?thesis by auto
    next
      case (Inr v)
      let ?s1 = "t\<lparr>trace := trace s @ [Called f [] (Inr v) (trace t)]\<rparr>"
      from Cons.prems fn Some a Inr
      have "forEach (notify_subscriber call) fs ?s1 = Some (r, s')"
        by (simp add: notify_subscriber_cases)
      from Cons.IH[OF this] Cons.prems(2) show ?thesis by auto
    qed
  qed
qed

lemma forEach_notify_total:
  assumes "\<forall>f \<in> set fs. is_function f \<and> (\<forall>t. call f [] t \<noteq> None)"
  shows "forEach (notify_subscriber call) fs s \<noteq> None"
  using assms
proof (induction fs arbitrary: s)
  case Nil
  then show ?case by simp
next
  case (Cons f fs)
  then have fn: "is_function f" and tot: "call f [] (s\<lparr>trace := []\<rparr>) \<noteq> None" by auto
  from tot obtain o1 t where c: "call f [] (s\<lparr>trace := []\<rparr>) = Some (o1, t)" by auto
  show ?case using Cons fn c
    by (cases o1) (auto simp: notify_subscriber_cases)
qed

lemma count_list_distinct:
  "distinct xs \<Longrightarrow> count_list xs x = (if x \<in> set xs then 1 else 0)"
  by (induction xs) auto

lemma forEach_notify_never_throws:
  "forEach (notify_subscriber call) fs s = Some (r, s') \<Longrightarrow> r = Inr VUndefined"
proof (induction fs arbitrary: s)
  case Nil
  then show ?case by simp
next
  case (Cons f fs)
  then show ?case
    by (auto simp: notify_subscriber_def console_error_def thenDo_def tryCatch_def returns_def
        split: option.splits sum.splits prod.splits)
qed

lemma signal_write_after_next:
  assumes "next_value call k newValue s = Some (Inr v, s1)"
  shows "signal_write call k newValue s =
         thenDo (forEach (notify_subscriber call) (subscribers (signals s1 k))
                   (assign_initialValue k v s1))
           (\<lambda>_ s3. returns (initialValue (signals s3 k)) s3)"
proof -
  let ?m = "forEach (notify_subscriber call) (subscribers (signals s1 k))
              (assign_initialValue k v s1)"
  have sub: "subscribers (signals (assign_initialValue k v s1) k) = subscribers (signals s1 k)"
    by (simp add: assign_initialValue_def)
  show ?thesis
  proof (cases ?m)
    case None
    with assms sub show ?thesis by (simp add: signal_write_def Let_def)
  next
    case (Some a)
    obtain r s' where a: "a = (r, s')" by (cases a)
    from Some a have "r = Inr VUndefined" by (simp add: forEach_notify_never_throws)
    with assms sub Some a show ?thesis by (simp add: signal_write_def Let_def returns_def)
  qed
qed

text \<open>
  Whatever the subscribers do: a write whose new value is computed (\<open>next_value\<close> returns \<open>v\<close>, as it always does
  for a value that is not a function) calls every function in the signal's subscriber set
  exactly once, in the order of the set, inside the write: if the write returns, the events
  it added are one call per subscriber, each followed by the report of its error when it
  threw, and the write returns normally with the value the signal then holds. When no
  subscriber's call goes on forever, the write does return. What a subscriber does when it
  is called, including throwing, is left open: \<open>call\<close> is arbitrary.
\<close>

lemma write_calls_each_subscriber_once:
  assumes nv: "next_value call k newValue s = Some (Inr v, s1)"
      and fn: "\<forall>f \<in> set (subscribers (signals s1 k)). is_function f"
      and ds: "distinct (subscribers (signals s1 k))"
  shows "(\<forall>r s'. signal_write call k newValue s = Some (r, s') \<longrightarrow>
            r = Inr (initialValue (signals s' k)) \<and>
            (\<exists>evs. trace s' = trace s1 @ evs
                \<and> fanout_events (subscribers (signals s1 k)) evs
                \<and> (\<forall>f. count_list (calls_of evs) f
                        = (if f \<in> set (subscribers (signals s1 k)) then 1 else 0))))
       \<and> ((\<forall>f \<in> set (subscribers (signals s1 k)). \<forall>t. call f [] t \<noteq> None) \<longrightarrow>
            signal_write call k newValue s \<noteq> None)"
proof (intro conjI allI impI)
  fix r s'
  assume w: "signal_write call k newValue s = Some (r, s')"
  let ?s2 = "assign_initialValue k v s1"
  from w obtain r0 s3 where
    fe: "forEach (notify_subscriber call) (subscribers (signals s1 k)) ?s2 = Some (r0, s3)"
    by (auto simp: signal_write_after_next[OF nv] thenDo_def split: option.splits)
  from forEach_notify[OF fn fe] obtain evs where
    r0: "r0 = Inr VUndefined" and tr: "trace s3 = trace ?s2 @ evs"
    and fo: "fanout_events (subscribers (signals s1 k)) evs" by auto
  from w fe r0 have res: "r = Inr (initialValue (signals s3 k))" "s' = s3"
    by (auto simp: signal_write_after_next[OF nv])
  show "r = Inr (initialValue (signals s' k))" using res by simp
  have cnt: "\<And>f. count_list (calls_of evs) f
            = (if f \<in> set (subscribers (signals s1 k)) then 1 else 0)"
    using fanout_calls[OF fo] ds by (simp add: count_list_distinct)
  show "\<exists>evs. trace s' = trace s1 @ evs
          \<and> fanout_events (subscribers (signals s1 k)) evs
          \<and> (\<forall>f. count_list (calls_of evs) f
                  = (if f \<in> set (subscribers (signals s1 k)) then 1 else 0))"
    using tr fo cnt res by (auto simp: assign_initialValue_def)
next
  assume tot: "\<forall>f \<in> set (subscribers (signals s1 k)). \<forall>t. call f [] t \<noteq> None"
  with fn have "\<forall>f \<in> set (subscribers (signals s1 k)).
      is_function f \<and> (\<forall>t. call f [] t \<noteq> None)" by simp
  then have "forEach (notify_subscriber call) (subscribers (signals s1 k))
      (assign_initialValue k v s1) \<noteq> None"
    by (rule forEach_notify_total)
  then show "signal_write call k newValue s \<noteq> None"
    by (auto simp: signal_write_after_next[OF nv] thenDo_def split: option.splits sum.splits)
qed

section \<open>A write whose updater throws\<close>

text \<open>
  C10. When the updater \<open>f\<close> throws \<open>err\<close> on the current value, the write accessor
  reports and rethrows \<open>err\<close>; the signals are as the updater left them (a subsequent read
  returns the value from before the write when the updater itself wrote no signal), and
  the only call the write made is the call of the updater: no subscriber is called,
  whatever \<open>call\<close> would do on one.
\<close>

theorem write_failing_updater:
  assumes thr: "call (VFun f) [initialValue (signals s k)] (s\<lparr>trace := []\<rparr>) = Some (Inl err, t)"
  shows "\<exists>s'. signal_write call k (VFun f) s = Some (Inl err, s')
          \<and> signals s' = signals t
          \<and> trace s' = trace s @ [Called (VFun f) [initialValue (signals s k)] (Inl err) (trace t),
                                   Logged ''Error in signal setter:'' (Some err)]
          \<and> (signals t = signals s \<longrightarrow>
               (\<exists>s''. signal_read k s' = Some (Inr (initialValue (signals s k)), s'')))"
proof -
  let ?s' = "t\<lparr>trace := trace s @ [Called (VFun f) [initialValue (signals s k)] (Inl err) (trace t),
                                   Logged ''Error in signal setter:'' (Some err)]\<rparr>"
  have w: "signal_write call k (VFun f) s = Some (Inl err, ?s')"
    using thr
    by (simp add: signal_write_def next_value_def invoke_function console_error_def
        throws_def returns_def)
  have "signals t = signals s \<longrightarrow>
          (\<exists>s''. signal_read k ?s' = Some (Inr (initialValue (signals s k)), s''))"
    using signal_read_value[of k ?s'] by auto
  with w show ?thesis by simp
qed

theorem write_failing_updater_witness:
  "\<exists>s'. signal_write (run 2) 0 (VFun failing_updater) two_subscribers
           = Some (Inl (VError ''bad''), s')
       \<and> signals s' = signals two_subscribers
       \<and> trace s' = [Called (VFun failing_updater) [VNum 0] (Inl (VError ''bad'')) [],
                     Logged ''Error in signal setter:'' (Some (VError ''bad''))]
       \<and> (\<exists>s''. signal_read 0 s' = Some (Inr (VNum 0), s''))"
proof -
  have iv: "initialValue (signals two_subscribers 0) = VNum 0"
    and tr: "trace two_subscribers = []"
    by (simp_all add: two_subscribers_def init_state_def)
  have thr: "run 2 (VFun failing_updater) [initialValue (signals two_subscribers 0)]
               (two_subscribers\<lparr>trace := []\<rparr>)
             = Some (Inl (VError ''bad''), two_subscribers\<lparr>trace := []\<rparr>)"
    by (simp add: failing_updater_def eval_nat_numeral apply_val_def apply_fn_def
        returns_def throws_def)
  from write_failing_updater [where call = "run 2" and s = two_subscribers and k = 0, OF thr]
  show ?thesis
    by (simp add: iv tr)
qed

section \<open>Mounting on a selector that matches nothing\<close>

text \<open>
  C9. When \<^verbatim>\<open>document.querySelector\<close> answers \<^verbatim>\<open>null\<close> for the root selector, \<^verbatim>\<open>render\<close>
  reports it and returns (\<^verbatim>\<open>undefined\<close>): the state is the state before the call with one
  report added, so no node was created, changed or cleared, and the component was not
  called, whatever \<open>call\<close> would do on it.
\<close>

theorem render_selector_not_found:
  assumes "querySelector s selector = Inr VNull"
  shows "render call component (VStr selector) options s =
           Some (Inr VUndefined,
                 s\<lparr>trace := trace s @
                    [Logged ''Cannot find element matching selector: null'' None]\<rparr>)"
  using assms
  by (simp add: render_def withText_def ToString_def console_error_def returns_def)

theorem render_selector_not_found_witness:
  "render (run 0) (VFun (Lam (Throw (Const VNull)))) (VStr ''#app'') VUndefined init_state =
     Some (Inr VUndefined,
           init_state\<lparr>trace := [Logged ''Cannot find element matching selector: null'' None]\<rparr>)"
proof -
  have q: "querySelector init_state ''#app'' = Inr VNull"
    by (simp add: init_state_def)
  have tr: "trace init_state = []"
    by (simp add: init_state_def)
  from render_selector_not_found [where call = "run 0", OF q] show ?thesis
    by (simp add: tr)
qed


section \<open>The value a write stores and returns\<close>
















section \<open>The first run of an effect\<close>

text \<open>
  C4, as amended. \<^verbatim>\<open>setEffect(fn)\<close> calls \<open>fn\<close> once, at once, in a state whose
  \<^verbatim>\<open>currentEffect\<close> is the new \<^verbatim>\<open>runEffect\<close> closure: the slot holds the closure when the
  body of \<open>fn\<close> starts. Whether \<open>fn\<close> returns or throws, \<^verbatim>\<open>currentEffect\<close> is \<^verbatim>\<open>null\<close>
  afterwards and \<^verbatim>\<open>setEffect\<close> returns normally; a throw is reported twice (by
  \<^verbatim>\<open>runEffect\<close> and by \<^verbatim>\<open>setEffect\<close>). When the call of \<open>fn\<close> does not end, neither does
  \<^verbatim>\<open>setEffect\<close>.
\<close>

theorem setEffect_runs_callback_once:
  assumes "is_function fn"
  shows "case call fn [] (s\<lparr>nextEffect := Suc (nextEffect s),
                            currentEffect := VFun (RunEffect (nextEffect s) fn),
                            trace := []\<rparr>) of
           None \<Rightarrow> setEffect call fn s = None
         | Some (r, t) \<Rightarrow>
             setEffect call fn s =
               Some (Inr VUndefined,
                     t\<lparr>currentEffect := VNull,
                       trace := trace s @
                         [Called (VFun (RunEffect (nextEffect s) fn)) [] r
                            (Called fn [] r (trace t) #
                             (case r of Inl e \<Rightarrow> [Logged ''Error in effect:'' (Some e)]
                                      | Inr v \<Rightarrow> []))] @
                         (case r of Inl e \<Rightarrow> [Logged ''Error initializing effect:'' (Some e)]
                                  | Inr v \<Rightarrow> [])\<rparr>)"
proof (cases "call fn [] (s\<lparr>nextEffect := Suc (nextEffect s),
                            currentEffect := VFun (RunEffect (nextEffect s) fn),
                            trace := []\<rparr>)")
  case None
  with assms show ?thesis
    by (simp add: setEffect_def runEffect_def traced_def invoke_function Let_def)
next
  case (Some a)
  obtain r t where a: "a = (r, t)" by (cases a)
  show ?thesis
  proof (cases r)
    case (Inl e)
    with Some a assms show ?thesis
      by (simp add: setEffect_def runEffect_def traced_def invoke_function Let_def
          console_error_def returns_def throws_def)
  next
    case (Inr v)
    with Some a assms show ?thesis
      by (simp add: setEffect_def runEffect_def traced_def invoke_function Let_def
          console_error_def returns_def throws_def)
  qed
qed

theorem setEffect_runs_callback_once_witness:
  "is_function throwing_callback \<and>
   setEffect (run 1) throwing_callback init_state =
     Some (Inr VUndefined,
           init_state\<lparr>nextEffect := 1, currentEffect := VNull,
             trace := [Called (VFun (RunEffect 0 throwing_callback)) [] (Inl (VError ''boom''))
                         [Called throwing_callback [] (Inl (VError ''boom'')) [],
                          Logged ''Error in effect:'' (Some (VError ''boom''))],
                       Logged ''Error initializing effect:'' (Some (VError ''boom''))]\<rparr>)"
proof -
  have f: "is_function throwing_callback"
    by (simp add: throwing_callback_def)
  have ne: "nextEffect init_state = 0" and tr: "trace init_state = []"
    by (simp_all add: init_state_def)
  let ?s0 = "init_state\<lparr>nextEffect := Suc 0,
                currentEffect := VFun (RunEffect 0 throwing_callback), trace := []\<rparr>"
  have c: "run 1 throwing_callback [] ?s0 = Some (Inl (VError ''boom''), ?s0)"
    by (simp add: throwing_callback_def apply_val_def apply_fn_def throws_def returns_def)
  from setEffect_runs_callback_once [where call = "run 1" and s = init_state, OF f]
  have "case run 1 throwing_callback [] ?s0 of
           None \<Rightarrow> setEffect (run 1) throwing_callback init_state = None
         | Some (r, t) \<Rightarrow>
             setEffect (run 1) throwing_callback init_state =
               Some (Inr VUndefined,
                     t\<lparr>currentEffect := VNull,
                       trace := [] @
                         [Called (VFun (RunEffect 0 throwing_callback)) [] r
                            (Called throwing_callback [] r (trace t) #
                             (case r of Inl e \<Rightarrow> [Logged ''Error in effect:'' (Some e)]
                                      | Inr v \<Rightarrow> []))] @
                         (case r of Inl e \<Rightarrow> [Logged ''Error initializing effect:'' (Some e)]
                                  | Inr v \<Rightarrow> [])\<rparr>)"
    by (simp only: ne tr)
  then have "setEffect (run 1) throwing_callback init_state =
               Some (Inr VUndefined,
                     ?s0\<lparr>currentEffect := VNull,
                       trace := [Called (VFun (RunEffect 0 throwing_callback)) []
                                   (Inl (VError ''boom''))
                                   [Called throwing_callback [] (Inl (VError ''boom'')) [],
                                    Logged ''Error in effect:'' (Some (VError ''boom''))],
                                 Logged ''Error initializing effect:'' (Some (VError ''boom''))]\<rparr>)"
    unfolding c by simp
  with f show ?thesis by simp
qed

text \<open>
  C4 as stated fails: the slot does not hold the closure for the whole body. A read
  subscribes the effect exactly when \<^verbatim>\<open>currentEffect\<close> is truthy. The callback that only
  reads the signal is subscribed by its read; the callback that first creates another
  effect and then reads is not, although its read took place (variable 0 holds the value
  read): the inner \<^verbatim>\<open>runEffect\<close> left \<^verbatim>\<open>currentEffect\<close> \<^verbatim>\<open>null\<close> for the rest of the outer
  body.
\<close>

theorem effect_slot_cleared_by_nested_effect:
  "(case setEffect (run 5) reads_only one_signal of
      Some (r, s) \<Rightarrow> r = Inr VUndefined \<and> vars s 0 = VNum 1
          \<and> subscribers (signals s 0) = [VFun (RunEffect 0 reads_only)]
    | None \<Rightarrow> False)
   \<and> (case setEffect (run 5) reads_after_nested_effect one_signal of
        Some (r, s) \<Rightarrow> r = Inr VUndefined \<and> vars s 0 = VNum 1
            \<and> subscribers (signals s 0) = []
      | None \<Rightarrow> False)"
  by code_simp


section \<open>Writing the current value back\<close>

text \<open>
  C6. For every value \<open>v\<close> that is not a function, after creating a signal with \<open>v\<close> and
  an effect that reads it and counts its own runs, \<^verbatim>\<open>write(read())\<close> returns \<open>v\<close>, leaves
  \<open>v\<close> in the signal and has run the effect's body a second time: the count is 2. The
  write compares nothing.
\<close>

theorem write_of_current_value_reruns_effect:
  assumes "\<not> is_function v"
  shows "case eval (run 5) [] (write_back v) init_state of
           None \<Rightarrow> False
         | Some (r, s) \<Rightarrow> r = Inr v \<and> vars s 0 = VNum 2
              \<and> initialValue (signals s 0) = v"
  using assms
  by (simp add: write_back_def counting_reader_def init_state_def eval_nat_numeral
      apply_val_def apply_fn_def arg_def invoke_def traced_def console_error_def
      setSignal_def setEffect_def runEffect_def signal_read_def signal_write_def
      next_value_def notify_subscriber_def add_subscriber_def assign_initialValue_def
      returns_def throws_def Let_def)

theorem write_of_current_value_reruns_effect_witness:
  "\<not> is_function (VNum 1) \<and>
   (case eval (run 5) [] (write_back (VNum 1)) init_state of
      None \<Rightarrow> False
    | Some (r, s) \<Rightarrow> r = Inr (VNum 1) \<and> vars s 0 = VNum 2
         \<and> initialValue (signals s 0) = VNum 1)"
  using write_of_current_value_reruns_effect [of "VNum 1"] by simp


section \<open>Mounting a primitive\<close>

lemma ancestor_within_fresh:
  "\<forall>x. parentNode (ns x) \<noteq> Some a \<Longrightarrow> ancestor_within d ns a n = (a = n)"
  by (induction d arbitrary: n) (auto split: option.splits)

lemma detach_facts:
  "nextNode (detach c s) = nextNode s"
  "kind (nodes (detach c s) n) = kind (nodes s n)"
  "parentNode (nodes (detach c s) n) = Some q \<Longrightarrow> parentNode (nodes s n) = Some q"
  "trace (detach c s) = trace s"
  by (auto simp: detach_def Let_def split: option.splits if_splits)

lemma fold_detach_facts:
  "nextNode (fold detach cs s) = nextNode s"
  "kind (nodes (fold detach cs s) n) = kind (nodes s n)"
  "parentNode (nodes (fold detach cs s) n) = Some q \<Longrightarrow> parentNode (nodes s n) = Some q"
  "trace (fold detach cs s) = trace s"
proof (induction cs arbitrary: s)
  case Nil
  { case 1 show ?case by simp }
  { case 2 show ?case by simp }
  { case 3 then show ?case by simp }
  { case 4 show ?case by simp }
next
  case (Cons c cs)
  { case 1 show ?case by (simp add: Cons.IH(1) detach_facts) }
  { case 2 show ?case by (simp add: Cons.IH(2) detach_facts) }
  { case 3 then show ?case by (auto dest: Cons.IH(3) detach_facts(3)) }
  { case 4 show ?case by (simp add: Cons.IH(4) detach_facts) }
qed


lemma append_fresh_text:
  assumes ch: "can_have_children s p"
      and al: "p < nextNode s"
      and fr: "\<forall>x. parentNode (nodes s x) \<noteq> Some (nextNode s)"
  shows "\<exists>s'. thenDo (createTextNode txt s) (call_appendChild call (VNode p))
              = Some (Inr (VNode (nextNode s)), s')
          \<and> nextNode s' = Suc (nextNode s)
          \<and> childNodes (nodes s' p) = childNodes (nodes s p) @ [nextNode s]
          \<and> kind (nodes s' (nextNode s)) = TextNode
          \<and> nodeData (nodes s' (nextNode s)) = txt
          \<and> parentNode (nodes s' (nextNode s)) = Some p
          \<and> trace s' = trace s"
proof -
  let ?n = "nextNode s"
  let ?s1 = "s\<lparr>nodes := (nodes s)(?n := blank_node\<lparr>kind := TextNode, nodeData := txt\<rparr>),
               nextNode := Suc ?n\<rparr>"
  have c: "createTextNode txt s = Some (Inr (VNode ?n), ?s1)"
    by (simp add: createTextNode_def createNode_def returns_def)
  from al have pn: "p \<noteq> ?n" by simp
  have fr1: "\<forall>x. parentNode (nodes ?s1 x) \<noteq> Some ?n"
    using fr by (simp add: blank_node_def)
  have "ancestor_within (nextNode ?s1) (nodes ?s1) ?n p = (?n = p)"
    using fr1 by (rule ancestor_within_fresh)
  with pn have anc: "\<not> inclusive_ancestor ?s1 ?n p"
    unfolding inclusive_ancestor_def by blast
  have ch1: "can_have_children ?s1 p"
    using ch pn by (simp add: can_have_children_def)
  show ?thesis
    using anc ch1 pn
    by (simp add: c call_appendChild_def dom_appendChild_def insertBefore_def
        insert_nodes_def detach_def set_parent_def blank_node_def returns_def Let_def)
qed

lemma clear_children:
  assumes ch: "can_have_children s p"
  shows "\<exists>s'. set_textContent p [] s = Some (Inr VUndefined, s')
          \<and> nextNode s' = nextNode s
          \<and> childNodes (nodes s' p) = []
          \<and> can_have_children s' p
          \<and> (\<forall>x q. parentNode (nodes s' x) = Some q \<longrightarrow> parentNode (nodes s x) = Some q)
          \<and> trace s' = trace s"
proof -
  let ?s1 = "fold detach (childNodes (nodes s p)) s"
  let ?s2 = "?s1\<lparr>nodes := (nodes ?s1)(p := (nodes ?s1 p)\<lparr>childNodes := []\<rparr>)\<rparr>"
  have r: "set_textContent p [] s = Some (Inr VUndefined, ?s2)"
    using ch by (simp add: set_textContent_def Let_def returns_def)
  have a: "nextNode ?s2 = nextNode s" by (simp add: fold_detach_facts)
  have b: "childNodes (nodes ?s2 p) = []" by simp
  have c: "can_have_children ?s2 p"
    using ch by (simp add: can_have_children_def fold_detach_facts)
  have d: "parentNode (nodes ?s2 x) = Some q \<longrightarrow> parentNode (nodes s x) = Some q" for x q
  proof
    assume "parentNode (nodes ?s2 x) = Some q"
    then have "parentNode (nodes ?s1 x) = Some q"
      by (cases "x = p") simp_all
    then show "parentNode (nodes s x) = Some q"
      by (rule fold_detach_facts(3))
  qed
  have e: "trace ?s2 = trace s" by (simp add: fold_detach_facts)
  from r a b c d e show ?thesis by blast
qed


lemma String_of_primitive: "primitive v \<Longrightarrow> String_of v = Inr (text_of v)"
  by (cases v) (simp_all add: String_of_def)

lemma mount_view_primitive:
  assumes prim: "primitive v"
      and ch: "can_have_children s p"
      and al: "p < nextNode s"
      and fr: "\<forall>x. parentNode (nodes s x) \<noteq> Some (nextNode s)"
  shows "\<exists>s'. mount_view call (VNode p) v s = Some (Inr (if truthy v then v else VNull), s')
          \<and> (if truthy v
              then nextNode s' = Suc (nextNode s)
                 \<and> childNodes (nodes s' p) = childNodes (nodes s p) @ [nextNode s]
                 \<and> kind (nodes s' (nextNode s)) = TextNode
                 \<and> nodeData (nodes s' (nextNode s)) = text_of v
                 \<and> parentNode (nodes s' (nextNode s)) = Some p
              else s' = s)"
proof (cases "truthy v")
  case False
  then show ?thesis by (simp add: mount_view_def returns_def)
next
  case True
  from append_fresh_text[OF ch al fr, of "text_of v" call] obtain s' where
    a: "thenDo (createTextNode (text_of v) s) (call_appendChild call (VNode p))
          = Some (Inr (VNode (nextNode s)), s')"
    and f: "nextNode s' = Suc (nextNode s)"
       "childNodes (nodes s' p) = childNodes (nodes s p) @ [nextNode s]"
       "kind (nodes s' (nextNode s)) = TextNode"
       "nodeData (nodes s' (nextNode s)) = text_of v"
       "parentNode (nodes s' (nextNode s)) = Some p"
    by blast
  have mi: "mount_item call (VNode p) v s = Some (Inr (VNode (nextNode s)), s')"
    using prim a
    by (cases v) (simp_all add: mount_item_def get_prop_def prop_of_def withText_def
        String_of_primitive returns_def)
  have "mount_view call (VNode p) v s = Some (Inr v, s')"
    using prim True mi
    by (cases v) (simp_all add: mount_view_def returns_def)
  with True f show ?thesis by simp
qed


lemma render_into_default:
  assumes "set_textContent p [] s = Some (Inr VUndefined, s2)"
  shows "render_into call component (VNode p) VUndefined s =
           (case (if is_function component then invoke call component [] s2
                  else returns component s2) of
              None \<Rightarrow> None
            | Some (Inl error, s3) \<Rightarrow> render_error call (VNode p) error s3
            | Some (Inr viewContent, s3) \<Rightarrow> mount_view call (VNode p) viewContent s3)"
  using assms
  by (simp add: render_into_def option_or_def prop_of_def assign_textContent_def Let_def)

text \<open>
  C8, as amended. Let the root be a node \<open>p\<close> that can have children, and let the options
  be absent. When the component is a primitive \<open>v\<close> itself, or a function whose call returns
  the primitive \<open>v\<close>, \<^verbatim>\<open>render\<close> appends one new text node holding \<^verbatim>\<open>String(v)\<close> to the root
  and returns \<open>v\<close> if \<open>v\<close> is truthy; if \<open>v\<close> is falsy (\<^verbatim>\<open>undefined\<close>, \<^verbatim>\<open>null\<close>, \<^verbatim>\<open>false\<close>,
  \<^verbatim>\<open>0\<close>, the empty string) it appends nothing and returns \<^verbatim>\<open>null\<close>. The root is a node
  of the document (its identifier is in use, and the next free identifier is no node's
  parent).
\<close>

theorem render_mounts_truthy_primitive:
  assumes prim: "primitive v"
      and ch: "can_have_children s p"
      and al: "p < nextNode s"
      and fr: "\<forall>x. parentNode (nodes s x) \<noteq> Some (nextNode s)"
  shows "(\<exists>s'. render call v (VNode p) VUndefined s
                 = Some (Inr (if truthy v then v else VNull), s')
            \<and> (if truthy v
                then nextNode s' = Suc (nextNode s)
                   \<and> childNodes (nodes s' p) = [nextNode s]
                   \<and> kind (nodes s' (nextNode s)) = TextNode
                   \<and> nodeData (nodes s' (nextNode s)) = text_of v
                   \<and> parentNode (nodes s' (nextNode s)) = Some p
                else nextNode s' = nextNode s \<and> childNodes (nodes s' p) = []))
       \<and> (\<forall>f s2 t.
             set_textContent p [] s = Some (Inr VUndefined, s2)
             \<and> call (VFun f) [] (s2\<lparr>trace := []\<rparr>) = Some (Inr v, t)
             \<and> can_have_children t p \<and> p < nextNode t
             \<and> (\<forall>x. parentNode (nodes t x) \<noteq> Some (nextNode t)) \<longrightarrow>
             (\<exists>s'. render call (VFun f) (VNode p) VUndefined s
                     = Some (Inr (if truthy v then v else VNull), s')
                \<and> (if truthy v
                    then childNodes (nodes s' p) = childNodes (nodes t p) @ [nextNode t]
                       \<and> kind (nodes s' (nextNode t)) = TextNode
                       \<and> nodeData (nodes s' (nextNode t)) = text_of v
                       \<and> parentNode (nodes s' (nextNode t)) = Some p
                    else nodes s' = nodes t)))"
proof (intro conjI allI impI)
  from clear_children[OF ch] obtain s2 where
    c: "set_textContent p [] s = Some (Inr VUndefined, s2)"
    and n2: "nextNode s2 = nextNode s"
    and k2: "childNodes (nodes s2 p) = []"
    and ch2: "can_have_children s2 p"
    and p2: "\<forall>x q. parentNode (nodes s2 x) = Some q \<longrightarrow> parentNode (nodes s x) = Some q"
    by blast
  from al n2 have al2: "p < nextNode s2" by simp
  from fr p2 n2 have fr2: "\<forall>x. parentNode (nodes s2 x) \<noteq> Some (nextNode s2)" by metis
  from prim have nf: "\<not> is_function v" by (cases v) simp_all
  from mount_view_primitive[OF prim ch2 al2 fr2, of call] obtain s' where
    m: "mount_view call (VNode p) v s2 = Some (Inr (if truthy v then v else VNull), s')"
    and f: "if truthy v
              then nextNode s' = Suc (nextNode s2)
                 \<and> childNodes (nodes s' p) = childNodes (nodes s2 p) @ [nextNode s2]
                 \<and> kind (nodes s' (nextNode s2)) = TextNode
                 \<and> nodeData (nodes s' (nextNode s2)) = text_of v
                 \<and> parentNode (nodes s' (nextNode s2)) = Some p
              else s' = s2"
    by blast
  have r: "render call v (VNode p) VUndefined s = Some (Inr (if truthy v then v else VNull), s')"
    using nf m by (simp add: render_def render_into_default[OF c] returns_def)
  from f n2 k2 have
    "if truthy v
     then nextNode s' = Suc (nextNode s)
        \<and> childNodes (nodes s' p) = [nextNode s]
        \<and> kind (nodes s' (nextNode s)) = TextNode
        \<and> nodeData (nodes s' (nextNode s)) = text_of v
        \<and> parentNode (nodes s' (nextNode s)) = Some p
     else nextNode s' = nextNode s \<and> childNodes (nodes s' p) = []"
    by (cases "truthy v") simp_all
  with r show "\<exists>s'. render call v (VNode p) VUndefined s
                 = Some (Inr (if truthy v then v else VNull), s')
            \<and> (if truthy v
                then nextNode s' = Suc (nextNode s)
                   \<and> childNodes (nodes s' p) = [nextNode s]
                   \<and> kind (nodes s' (nextNode s)) = TextNode
                   \<and> nodeData (nodes s' (nextNode s)) = text_of v
                   \<and> parentNode (nodes s' (nextNode s)) = Some p
                else nextNode s' = nextNode s \<and> childNodes (nodes s' p) = [])"
    by blast
next
  fix f s2 t
  assume h: "set_textContent p [] s = Some (Inr VUndefined, s2)
             \<and> call (VFun f) [] (s2\<lparr>trace := []\<rparr>) = Some (Inr v, t)
             \<and> can_have_children t p \<and> p < nextNode t
             \<and> (\<forall>x. parentNode (nodes t x) \<noteq> Some (nextNode t))"
  let ?t = "t\<lparr>trace := trace s2 @ [Called (VFun f) [] (Inr v) (trace t)]\<rparr>"
  from h have c: "set_textContent p [] s = Some (Inr VUndefined, s2)"
    and cl: "call (VFun f) [] (s2\<lparr>trace := []\<rparr>) = Some (Inr v, t)" by simp_all
  from h have cht: "can_have_children ?t p" by (simp add: can_have_children_def)
  from h have alt: "p < nextNode ?t" by simp
  from h have frt: "\<forall>x. parentNode (nodes ?t x) \<noteq> Some (nextNode ?t)" by simp
  from mount_view_primitive[OF prim cht alt frt, of call] obtain s' where
    m: "mount_view call (VNode p) v ?t = Some (Inr (if truthy v then v else VNull), s')"
    and f: "if truthy v
              then nextNode s' = Suc (nextNode ?t)
                 \<and> childNodes (nodes s' p) = childNodes (nodes ?t p) @ [nextNode ?t]
                 \<and> kind (nodes s' (nextNode ?t)) = TextNode
                 \<and> nodeData (nodes s' (nextNode ?t)) = text_of v
                 \<and> parentNode (nodes s' (nextNode ?t)) = Some p
              else s' = ?t"
    by blast
  have r: "render call (VFun f) (VNode p) VUndefined s
             = Some (Inr (if truthy v then v else VNull), s')"
    using m cl by (simp add: render_def render_into_default[OF c] invoke_function)
  from f have
    "if truthy v
     then childNodes (nodes s' p) = childNodes (nodes t p) @ [nextNode t]
        \<and> kind (nodes s' (nextNode t)) = TextNode
        \<and> nodeData (nodes s' (nextNode t)) = text_of v
        \<and> parentNode (nodes s' (nextNode t)) = Some p
     else nodes s' = nodes t"
    by (cases "truthy v") simp_all
  with r show "\<exists>s'. render call (VFun f) (VNode p) VUndefined s
                     = Some (Inr (if truthy v then v else VNull), s')
                \<and> (if truthy v
                    then childNodes (nodes s' p) = childNodes (nodes t p) @ [nextNode t]
                       \<and> kind (nodes s' (nextNode t)) = TextNode
                       \<and> nodeData (nodes s' (nextNode t)) = text_of v
                       \<and> parentNode (nodes s' (nextNode t)) = Some p
                    else nodes s' = nodes t)"
    by blast
qed


lemma root_only_facts:
  "can_have_children root_only 0" "0 < nextNode root_only"
  "\<forall>x. parentNode (nodes root_only x) \<noteq> Some (nextNode root_only)"
  "nextNode root_only = 1"
  by (simp_all add: root_only_def init_state_def can_have_children_def blank_node_def)

theorem render_mounts_truthy_primitive_witness:
  "primitive (VStr ''hi'') \<and> can_have_children root_only 0 \<and> 0 < nextNode root_only
   \<and> (\<forall>x. parentNode (nodes root_only x) \<noteq> Some (nextNode root_only))
   \<and> (\<exists>s'. render (run 1) (VStr ''hi'') (VNode 0) VUndefined root_only
               = Some (Inr (VStr ''hi''), s')
          \<and> childNodes (nodes s' 0) = [1] \<and> kind (nodes s' 1) = TextNode
          \<and> nodeData (nodes s' 1) = ''hi'')
   \<and> (\<exists>s'. render (run 1) (VFun says_hi) (VNode 0) VUndefined root_only
               = Some (Inr (VStr ''hi''), s')
          \<and> childNodes (nodes s' 0) = [1] \<and> kind (nodes s' 1) = TextNode
          \<and> nodeData (nodes s' 1) = ''hi'')"
proof -
  have prim: "primitive (VStr ''hi'')" by simp
  note main = render_mounts_truthy_primitive
    [where call = "run 1", OF prim root_only_facts(1) root_only_facts(2) root_only_facts(3)]
  from main have a: "\<exists>s'. render (run 1) (VStr ''hi'') (VNode 0) VUndefined root_only
               = Some (Inr (VStr ''hi''), s')
          \<and> childNodes (nodes s' 0) = [1] \<and> kind (nodes s' 1) = TextNode
          \<and> nodeData (nodes s' 1) = ''hi''"
    by (simp add: root_only_facts(4)) blast
  from clear_children[OF root_only_facts(1)] obtain s2 where
    c: "set_textContent 0 [] root_only = Some (Inr VUndefined, s2)"
    and n2: "nextNode s2 = nextNode root_only"
    and k2: "childNodes (nodes s2 0) = []"
    and ch2: "can_have_children s2 0"
    and p2: "\<forall>x q. parentNode (nodes s2 x) = Some q \<longrightarrow> parentNode (nodes root_only x) = Some q"
    by blast
  let ?t = "s2\<lparr>trace := []\<rparr>"
  have cl: "run 1 (VFun says_hi) [] ?t = Some (Inr (VStr ''hi''), ?t)"
    by (simp add: says_hi_def apply_val_def apply_fn_def returns_def)
  have cht: "can_have_children ?t 0" using ch2 by (simp add: can_have_children_def)
  have alt: "0 < nextNode ?t" using n2 root_only_facts(4) by simp
  have frt: "\<forall>x. parentNode (nodes ?t x) \<noteq> Some (nextNode ?t)"
  proof (intro allI notI)
    fix x
    assume "parentNode (nodes ?t x) = Some (nextNode ?t)"
    then have "parentNode (nodes s2 x) = Some (nextNode root_only)" using n2 by simp
    with p2 have "parentNode (nodes root_only x) = Some (nextNode root_only)" by blast
    with root_only_facts(3) show False by blast
  qed
  from main c cl cht alt frt
  have "\<exists>s'. render (run 1) (VFun says_hi) (VNode 0) VUndefined root_only
               = Some (Inr (if truthy (VStr ''hi'') then VStr ''hi'' else VNull), s')
          \<and> (if truthy (VStr ''hi'')
              then childNodes (nodes s' 0) = childNodes (nodes ?t 0) @ [nextNode ?t]
                 \<and> kind (nodes s' (nextNode ?t)) = TextNode
                 \<and> nodeData (nodes s' (nextNode ?t)) = text_of (VStr ''hi'')
                 \<and> parentNode (nodes s' (nextNode ?t)) = Some 0
              else nodes s' = nodes ?t)"
    by blast
  then have b: "\<exists>s'. render (run 1) (VFun says_hi) (VNode 0) VUndefined root_only
               = Some (Inr (VStr ''hi''), s')
          \<and> childNodes (nodes s' 0) = [1] \<and> kind (nodes s' 1) = TextNode
          \<and> nodeData (nodes s' 1) = ''hi''"
    using k2 n2 root_only_facts(4) by simp blast
  from prim root_only_facts a b show ?thesis by blast
qed

text \<open>
  C8 as stated fails on every falsy primitive: for the component values \<^verbatim>\<open>0\<close> and \<^verbatim>\<open>""\<close>
  and for a component that returns \<^verbatim>\<open>false\<close>, \<^verbatim>\<open>render\<close> returns \<^verbatim>\<open>null\<close>, the root has no
  child and no node was created (line 328: \<^verbatim>\<open>if (!viewContent) return null\<close>).
\<close>

theorem render_drops_falsy_primitive:
  "(case render (run 1) (VNum 0) (VNode 0) VUndefined root_only of
      None \<Rightarrow> False
    | Some (r, s') \<Rightarrow> r = Inr VNull \<and> childNodes (nodes s' 0) = [] \<and> nextNode s' = 1)
   \<and> (case render (run 1) (VStr []) (VNode 0) VUndefined root_only of
        None \<Rightarrow> False
      | Some (r, s') \<Rightarrow> r = Inr VNull \<and> childNodes (nodes s' 0) = [] \<and> nextNode s' = 1)
   \<and> (case render (run 1) (VFun (Lam (Const (VBool False)))) (VNode 0) VUndefined root_only of
        None \<Rightarrow> False
      | Some (r, s') \<Rightarrow> r = Inr VNull \<and> childNodes (nodes s' 0) = [] \<and> nextNode s' = 1)"
  by code_simp


section \<open>The element builder returns and does not throw\<close>

lemma only_errors_simps [simp]:
  "only_errors None" "only_errors (Some (Inr v, s))" "only_errors (Some (Inl e, s)) = is_error e"
  "only_errors (returns v s)" "only_errors (throws e s) = is_error e"
  by (simp_all add: only_errors_def returns_def throws_def)

lemma only_errors_thenDo:
  assumes "only_errors m" and "\<And>v s. only_errors (k v s)"
  shows "only_errors (thenDo m k)"
proof (cases m)
  case None
  then show ?thesis by simp
next
  case (Some a)
  obtain r s where a: "a = (r, s)" by (cases a)
  show ?thesis
  proof (cases r)
    case (Inl e)
    with Some a assms(1) show ?thesis by simp
  next
    case (Inr v)
    with Some a assms(2)[of v s] show ?thesis by simp
  qed
qed


lemma only_errors_withText:
  assumes "\<And>txt s. only_errors (k txt s)"
  shows "only_errors (withText (ToString v) k s)"
    and "only_errors (withText (String_of v) k s)"
  using assms
  by (simp_all add: withText_def ToString_def String_of_def TypeError_def split: val.splits)


lemma only_errors_create [simp]:
  "only_errors (createNode n s)" "only_errors (createTextNode txt s)"
  "only_errors (createComment txt s)" "only_errors (createDocumentFragment s)"
  "only_errors (createElementNS ns name s)" "only_errors (createElement name s)"
  by (simp_all add: createNode_def createTextNode_def createComment_def
      createDocumentFragment_def createElementNS_def createElement_def)

lemma only_errors_insertBefore [simp]:
  "only_errors (insertBefore p n r s)" "only_errors (dom_appendChild p n s)"
  by (simp_all add: insertBefore_def dom_appendChild_def Let_def)

lemma only_errors_append_item [simp]: "only_errors (append_item p x s)"
  by (cases x)
     (auto simp: append_item_def intro!: only_errors_withText only_errors_thenDo split: val.splits)

lemma only_errors_attributes [simp]:
  "only_errors (setAttribute el name v s)" "only_errors (setAttributeNS el ns name v s)"
  "only_errors (removeAttribute el name s)" "only_errors (set_style el kv s)"
  "only_errors (set_innerHTML el v s)" "only_errors (addEventListener el ev v s)"
  "only_errors (has_prop name v s)"
  by (auto simp: setAttribute_def setAttributeNS_def removeAttribute_def set_style_def
      set_innerHTML_def addEventListener_def has_prop_def TypeError_def Let_def
      intro!: only_errors_withText split: val.splits)
















lemma defined_simps [simp]:
  "\<not> defined None" "defined (Some x)" "defined (returns v s)" "defined (throws e s)"
  by (simp_all add: defined_def)

lemma defined_thenDo:
  assumes "defined m" and "\<And>v s. defined (k v s)"
  shows "defined (thenDo m k)"
proof -
  from assms(1) obtain r s where m: "m = Some (r, s)" by (auto simp: defined_def)
  show ?thesis using assms(2) by (cases r) (simp_all add: m)
qed



lemma defined_withText:
  assumes "\<And>txt s. defined (k txt s)"
  shows "defined (withText c k s)"
  using assms by (cases c) (simp_all add: withText_def)

lemma defined_dom [simp]:
  "defined (createNode n s)" "defined (createTextNode txt s)" "defined (createComment txt s)"
  "defined (createDocumentFragment s)" "defined (createElementNS ns name s)"
  "defined (createElement name s)" "defined (insertBefore p c r s)"
  "defined (dom_appendChild p c s)" "defined (console_error label x s)"
  "defined (get_prop v name s)" "defined (has_prop name v s)"
  "defined (removeAttribute el name s)" "defined (set_style el kv s)"
  "defined (addEventListener el ev v s)"
  by (simp_all add: createNode_def createTextNode_def createComment_def
      createDocumentFragment_def createElementNS_def createElement_def insertBefore_def
      dom_appendChild_def console_error_def get_prop_def has_prop_def removeAttribute_def
      set_style_def addEventListener_def Let_def split: val.splits)

lemma defined_attributes [simp]:
  "defined (setAttribute el name v s)" "defined (setAttributeNS el ns name v s)"
  "defined (set_innerHTML el v s)"
  by (auto simp: setAttribute_def setAttributeNS_def set_innerHTML_def Let_def
      intro!: defined_withText)

lemma defined_append_item [simp]: "defined (append_item p x s)"
  by (cases x) (auto simp: append_item_def intro!: defined_withText defined_thenDo split: val.splits)

lemma defined_error_text [simp]:
  "defined (error_text prefix e createComment s)"
  unfolding error_text_def
  by (auto intro!: defined_thenDo defined_withText)
















text \<open>
  Outside the amended claim: a \<^verbatim>\<open>ref\<close> callback that throws \<^verbatim>\<open>null\<close> makes the handler on
  lines 286-288 fail at \<^verbatim>\<open>error.message\<close>, and \<^verbatim>\<open>html\<close> throws that \<^verbatim>\<open>TypeError\<close>.
\<close>

lemma html_throws_when_ref_throws_null:
  "case html (run 2) (VStr ''div'') (VObj 0) []
          (init_state\<lparr>objects := (objects init_state)
              (0 := [(''ref'', VFun (Lam (Throw (Const VNull))))])\<rparr>) of
     Some (Inl e, s') \<Rightarrow> is_error e
   | _ \<Rightarrow> False"
  by code_simp


section \<open>Rerunning a reactive child\<close>

text \<open>
  C2 fails on the code. The \<^verbatim>\<open>div\<close> (node 6) is built with the placeholder (7), the
  rendering \<^verbatim>\<open><p>yes</p>\<close> (0) and the static \<^verbatim>\<open>span\<close> (4). After \<^verbatim>\<open>setShow(false)\<close> the
  rerun for \<^verbatim>\<open>show() ? yes : no\<close> has removed every sibling after the placeholder, the
  static \<^verbatim>\<open>span\<close> with them: the \<^verbatim>\<open>div\<close> holds the placeholder and \<^verbatim>\<open><p>no</p>\<close> (2) only.
  The rerun for \<^verbatim>\<open>show() && yes\<close> has written \<^verbatim>\<open>false\<close> into the placeholder and removed
  nothing: the stale \<^verbatim>\<open><p>yes</p>\<close> is still there.
\<close>

theorem reactive_child_rerun_loses_sibling:
  "(case eval (run 6) [] (conditional_page shown_or_hidden (Const VUndefined)) init_state of
      None \<Rightarrow> False
    | Some (r, s) \<Rightarrow> childNodes (nodes s 6) = [7, 0, 4] \<and> parentNode (nodes s 4) = Some 6)
   \<and> (case eval (run 6) [] (conditional_page shown_or_hidden hide) init_state of
        None \<Rightarrow> False
      | Some (r, s) \<Rightarrow> childNodes (nodes s 6) = [7, 2] \<and> parentNode (nodes s 4) = None)
   \<and> (case eval (run 6) [] (conditional_page shown_only hide) init_state of
        None \<Rightarrow> False
      | Some (r, s) \<Rightarrow> childNodes (nodes s 6) = [7, 0, 4] \<and> nodeData (nodes s 7) = ''false''
          \<and> initialValue (signals s 0) = VBool False)"
  by code_simp

section \<open>Effects that only read signals and compute\<close>

lemma subscribed_empty [simp]: "subscribed E {} sg = sg"
  by (simp add: subscribed_def)


lemma subscribed_value [simp]:
  "initialValue (subscribed E K sg k) = initialValue (sg k)"
  by (simp add: subscribed_def)

lemma pure_step_refl [simp]: "pure_step s {} s"
  by (simp add: pure_step_def)



lemma pure_step_trace [simp]:
  "pure_step s K (s'\<lparr>trace := t\<rparr>) = pure_step s K s'"
  "pure_step (s\<lparr>trace := t\<rparr>) K s' = pure_step s K s'"
  by (simp_all add: pure_step_def)

lemma values_of_trace [simp]:
  "values_of (s\<lparr>trace := t\<rparr>) = values_of s"
  "values_of (s\<lparr>nextEffect := n\<rparr>) = values_of s"
  "values_of (s\<lparr>currentEffect := e\<rparr>) = values_of s"
  by (simp_all add: values_of_def)












lemma pure_effect_of [simp]: "pure_effect N (effect_of i b) = reads_signals_below N b"
  by (simp add: effect_of_def)

lemma truthy_effect_of [simp]: "truthy (effect_of i b)" "is_function (effect_of i b)"
  by (simp_all add: effect_of_def)



lemma effects_subscribed_trace [simp]:
  "effects_subscribed N (s\<lparr>trace := t\<rparr>) = effects_subscribed N s"
  by (simp add: effects_subscribed_def values_of_def)







lemma latest_append: "latest (ws @ [(k, v)]) \<sigma> = (latest ws \<sigma>)(k := v)"
  by (induction ws arbitrary: \<sigma>) auto










section \<open>A memo over signals\<close>






lemma memo_quiet_trace [simp]:
  "memo_quiet M E (s\<lparr>trace := t\<rparr>) = memo_quiet M E s"
  "memo_quiet M E (s\<lparr>nextEffect := n\<rparr>) = memo_quiet M E s"
  "memo_quiet M E (s\<lparr>currentEffect := c\<rparr>) = memo_quiet M E s"
  by (simp_all add: memo_quiet_def)

lemma memo_settled_trace [simp]:
  "memo_settled M E body (s\<lparr>trace := t\<rparr>) = memo_settled M E body s"
  by (simp add: memo_settled_def)










end
